theory Spec2Isabelle
  imports Complex_Main "HOL-Library.AList"
begin

section \<open>The sphere dataset script and its host\<close>

text \<open>
  \<^verbatim>\<open>spherescript.py\<close> is a script for Blender's Python interface (\<^verbatim>\<open>bpy\<close>): it builds
  a translucent sphere with an outline shell and two hoops, exports the mesh, renders
  four views and writes a label file. Every line of it reads or writes the host's data
  (\<^verbatim>\<open>bpy.data\<close>, \<^verbatim>\<open>bpy.context\<close>) or calls one of the host's operators (\<^verbatim>\<open>bpy.ops\<close>).

  The embedding has two layers. The host layer is a record \<open>scene\<close> of the data blocks
  the script touches and one function per property access or operator the script uses,
  with the effect Blender 2.8x to 3.x gives it (the versions that have every call of the
  script). The script layer is one function per function of the script, with the
  script's names, taking the state and returning the new one. Python references to data
  blocks are keys of the stores; an exception is a value \<open>Inl e\<close>.

  Python floats are modelled by real numbers, so \<open>1 + thickness\<close> and the rotation
  compositions are exact. Operators are taken in a context where they can run (their
  poll succeeds, a render finds its camera, a file can be written); what the script can
  raise by itself, a lookup by name or an attribute of the wrong kind of data block, is
  a branch of the model.
\<close>

subsection \<open>Numbers, vectors, rotations\<close>

type_synonym vec3 = "real \<times> real \<times> real"
type_synonym rgba = "real \<times> real \<times> real \<times> real"

text \<open>An orientation is a rotation matrix, kept as its three columns.\<close>

type_synonym mat3 = "vec3 \<times> vec3 \<times> vec3"

text \<open>\<^verbatim>\<open>math.radians\<close>.\<close>

definition radians :: "real \<Rightarrow> real" where
  "radians d = d * pi / 180"

datatype axis = AxisX | AxisY | AxisZ

fun rot :: "axis \<Rightarrow> real \<Rightarrow> vec3 \<Rightarrow> vec3" where
  "rot AxisX a (x, y, z) = (x, cos a * y - sin a * z, sin a * y + cos a * z)"
| "rot AxisY a (x, y, z) = (cos a * x + sin a * z, y, cos a * z - sin a * x)"
| "rot AxisZ a (x, y, z) = (cos a * x - sin a * y, sin a * x + cos a * y, z)"

fun vadd :: "vec3 \<Rightarrow> vec3 \<Rightarrow> vec3" where
  "vadd (a, b, c) (x, y, z) = (a + x, b + y, c + z)"

fun vsub :: "vec3 \<Rightarrow> vec3 \<Rightarrow> vec3" where
  "vsub (a, b, c) (x, y, z) = (a - x, b - y, c - z)"

definition rot_about :: "vec3 \<Rightarrow> axis \<Rightarrow> real \<Rightarrow> vec3 \<Rightarrow> vec3" where
  "rot_about p ax a v = vadd p (rot ax a (vsub v p))"

fun rot_mat :: "axis \<Rightarrow> real \<Rightarrow> mat3 \<Rightarrow> mat3" where
  "rot_mat ax a (c1, c2, c3) = (rot ax a c1, rot ax a c2, rot ax a c3)"

definition identity_mat :: mat3 where
  "identity_mat = ((1, 0, 0), (0, 1, 0), (0, 0, 1))"

text \<open>
  Assigning \<^verbatim>\<open>rotation_euler = (a, b, c)\<close> on an object in the default rotation mode XYZ
  makes its orientation the rotation about X by \<open>a\<close>, then about Y by \<open>b\<close>, then about Z
  by \<open>c\<close>.
\<close>

fun euler_to_mat :: "vec3 \<Rightarrow> mat3" where
  "euler_to_mat (a, b, c) = rot_mat AxisZ c (rot_mat AxisY b (rot_mat AxisX a identity_mat))"

text \<open>The image of a direction under an orientation.\<close>

fun apply_mat :: "mat3 \<Rightarrow> vec3 \<Rightarrow> vec3" where
  "apply_mat ((a1, a2, a3), (b1, b2, b3), (c1, c2, c3)) (x, y, z) =
     (a1 * x + b1 * y + c1 * z, a2 * x + b2 * y + c2 * z, a3 * x + b3 * y + c3 * z)"

subsection \<open>Data blocks\<close>

datatype error =
    KeyError string
  | AttributeError string
  | TypeError string
  | RuntimeError string
  | ReferenceError

text \<open>A store of data blocks: the blocks in creation order, each under its key.\<close>

type_synonym 'a store = "(nat \<times> 'a) list"

definition fresh :: "'a store \<Rightarrow> nat" where
  "fresh st = Suc (fold max (map fst st) 0)"

definition modify :: "nat \<Rightarrow> ('a \<Rightarrow> 'a) \<Rightarrow> 'a store \<Rightarrow> 'a store" where
  "modify k f st = map (\<lambda>(i, x). if i = k then (i, f x) else (i, x)) st"

datatype data_ref = MeshData nat | CameraData nat | LightData nat

datatype obj_type = MESH | CAMERA | LIGHT

record obj =
  name :: string
  data :: data_ref
  location :: vec3
  rotation :: mat3
  scale :: vec3
  parent :: "nat option"
  selected :: bool
  props :: "(string \<times> string) list"
  show_in_front :: bool
  display_type :: string

text \<open>\<^verbatim>\<open>obj.type\<close> follows from the kind of data block the object carries.\<close>

definition type_of :: "obj \<Rightarrow> obj_type" where
  "type_of ob = (case data ob of MeshData _ \<Rightarrow> MESH | CameraData _ \<Rightarrow> CAMERA | LightData _ \<Rightarrow> LIGHT)"

datatype geometry =
    UVSphere real nat nat
  | Torus real real nat nat
  | OtherGeometry

text \<open>
  A mesh: \<open>normals_flipped\<close> says whether its face normals are the reverse of those the
  primitive was created with, \<open>faces_selected\<close> whether its faces are selected in edit
  mode, \<open>mesh_materials\<close> are its material slots.
\<close>

record mesh =
  mesh_name :: string
  geometry :: geometry
  normals_flipped :: bool
  faces_selected :: bool
  mesh_materials :: "nat list"
  use_fake_user :: bool

datatype blend_mode = OPAQUE | CLIP | HASHED | BLEND

text \<open>
  A material; \<open>base_color\<close> and \<open>alpha\<close> are the inputs of its Principled BSDF node.
\<close>

record material =
  mat_name :: string
  use_nodes :: bool
  base_color :: rgba
  alpha :: real
  blend_method :: blend_mode
  show_transparent_back :: bool

record light =
  light_name :: string
  light_type :: string
  energy :: real

record camera =
  camera_name :: string

datatype select_action = SELECT | DESELECT

text \<open>
  The host state: \<^verbatim>\<open>bpy.data\<close> (the five stores), \<^verbatim>\<open>bpy.context\<close> (active object,
  objects in edit mode, scene camera, 3D cursor, pivot of the transform operators,
  render settings), and what the script leaves outside: the renders (file path and the
  objects as they stood), the exports (file path and the objects selected) and the text
  files.
\<close>

record scene =
  objects :: "obj store"
  meshes :: "mesh store"
  materials :: "material store"
  lights :: "light store"
  cameras :: "camera store"
  active_object :: "nat option"
  edit_objects :: "nat list"
  scene_camera :: "nat option"
  cursor :: vec3
  pivot :: vec3
  render_filepath :: string
  render_file_format :: string
  renders :: "(string \<times> obj store) list"
  exports :: "(string \<times> nat list) list"
  files :: "(string \<times> string) list"

definition empty_scene :: scene where
  "empty_scene = \<lparr> objects = [], meshes = [], materials = [], lights = [], cameras = [],
     active_object = None, edit_objects = [], scene_camera = None,
     cursor = (0, 0, 0), pivot = (0, 0, 0),
     render_filepath = [], render_file_format = ''PNG'',
     renders = [], exports = [], files = [] \<rparr>"

text \<open>
  What the host decides and the script relies on: the names the host gives a new camera
  object and a new area light object.
\<close>

record host =
  camera_defname :: string
  area_light_defname :: string

text \<open>
  Blender names a new object after its kind: a camera is \<^verbatim>\<open>Camera\<close>, and a light is named
  after its type, \<^verbatim>\<open>Point\<close>, \<^verbatim>\<open>Sun\<close>, \<^verbatim>\<open>Spot\<close> or \<^verbatim>\<open>Area\<close>.
\<close>

definition blender :: host where
  "blender = \<lparr> camera_defname = ''Camera'', area_light_defname = ''Area'' \<rparr>"

subsection \<open>Names\<close>

text \<open>
  Names are unique within a store: a name that is taken gets the first free numeric
  suffix \<^verbatim>\<open>.001\<close>, \<^verbatim>\<open>.002\<close>, ...
\<close>

fun decimal :: "nat \<Rightarrow> string" where
  "decimal n = (if n < 10 then [char_of (48 + n)] else decimal (n div 10) @ [char_of (48 + n mod 10)])"

definition suffix3 :: "nat \<Rightarrow> string" where
  "suffix3 k = replicate (3 - length (decimal k)) (CHR ''0'') @ decimal k"

definition unique_name :: "string list \<Rightarrow> string \<Rightarrow> string" where
  "unique_name taken nm =
     (if nm \<notin> set taken then nm
      else case find (\<lambda>c. c \<notin> set taken)
                  (map (\<lambda>k. nm @ ''.'' @ suffix3 k) [1..<length taken + 2]) of
             Some c \<Rightarrow> c
           | None \<Rightarrow> nm)"

definition object_names :: "scene \<Rightarrow> string list" where
  "object_names s = map (\<lambda>(i, ob). name ob) (objects s)"

text \<open>\<^verbatim>\<open>bpy.data.objects[key]\<close>: the key of the object of that name, or \<^verbatim>\<open>KeyError\<close>.\<close>

definition objects_by_name :: "string \<Rightarrow> scene \<Rightarrow> error + nat" where
  "objects_by_name nm s =
     (case find (\<lambda>(i, ob). name ob = nm) (objects s) of
        None \<Rightarrow> Inl (KeyError nm)
      | Some (i, ob) \<Rightarrow> Inr i)"

text \<open>\<^verbatim>\<open>obj.name = nm\<close>: the name is made unique among the other objects.\<close>

definition set_name :: "nat \<Rightarrow> string \<Rightarrow> scene \<Rightarrow> scene" where
  "set_name k nm s =
     (let others = map (\<lambda>(i, ob). name ob) (filter (\<lambda>(i, ob). i \<noteq> k) (objects s))
      in s\<lparr>objects := modify k (\<lambda>ob. ob\<lparr>name := unique_name others nm\<rparr>) (objects s)\<rparr>)"

text \<open>\<^verbatim>\<open>obj[key] = value\<close>: a custom property.\<close>

definition set_prop :: "nat \<Rightarrow> string \<Rightarrow> string \<Rightarrow> scene \<Rightarrow> scene" where
  "set_prop k key v s =
     s\<lparr>objects := modify k (\<lambda>ob. ob\<lparr>props := AList.update key v (props ob)\<rparr>) (objects s)\<rparr>"

definition shape_tag :: "obj \<Rightarrow> string option" where
  "shape_tag ob = map_of (props ob) ''shape_tag''"

subsection \<open>Selection and deletion\<close>

text \<open>\<^verbatim>\<open>bpy.ops.object.select_all(action=...)\<close>.\<close>

definition object_select_all :: "select_action \<Rightarrow> scene \<Rightarrow> scene" where
  "object_select_all action s =
     s\<lparr>objects := map (\<lambda>(i, ob). (i, ob\<lparr>selected := (action = SELECT)\<rparr>)) (objects s)\<rparr>"

text \<open>\<^verbatim>\<open>obj.select_set(state)\<close>; a reference to a removed object raises.\<close>

definition select_set :: "nat \<Rightarrow> bool \<Rightarrow> scene \<Rightarrow> error + scene" where
  "select_set k b s =
     (case map_of (objects s) k of
        None \<Rightarrow> Inl ReferenceError
      | Some ob \<Rightarrow> Inr (s\<lparr>objects := modify k (\<lambda>ob. ob\<lparr>selected := b\<rparr>) (objects s)\<rparr>))"

definition drop_ref :: "nat list \<Rightarrow> nat option \<Rightarrow> nat option" where
  "drop_ref dead r = (case r of None \<Rightarrow> None | Some k \<Rightarrow> if k \<in> set dead then None else Some k)"

text \<open>
  \<^verbatim>\<open>bpy.ops.object.delete(use_global=False)\<close>: the selected objects are removed, and with
  them the references to them (active object, scene camera, parent of a survivor).
  Their data blocks stay behind.
\<close>

definition object_delete :: "scene \<Rightarrow> scene" where
  "object_delete s =
     (let dead = map fst (filter (\<lambda>(i, ob). selected ob) (objects s));
          kept = filter (\<lambda>(i, ob). \<not> selected ob) (objects s)
      in s\<lparr>objects := map (\<lambda>(i, ob). (i, ob\<lparr>parent := drop_ref dead (parent ob)\<rparr>)) kept,
           active_object := drop_ref dead (active_object s),
           scene_camera := drop_ref dead (scene_camera s)\<rparr>)"

text \<open>\<^verbatim>\<open>block.users\<close> of a mesh: the objects that carry it, and its fake user.\<close>

definition mesh_users :: "scene \<Rightarrow> nat \<Rightarrow> nat" where
  "mesh_users s m =
     length (filter (\<lambda>(i, ob). data ob = MeshData m) (objects s))
     + (case map_of (meshes s) m of
          None \<Rightarrow> 0
        | Some blk \<Rightarrow> if use_fake_user blk then 1 else 0)"

text \<open>\<^verbatim>\<open>bpy.data.meshes.remove(block)\<close>.\<close>

definition meshes_remove :: "nat \<Rightarrow> scene \<Rightarrow> scene" where
  "meshes_remove m s = s\<lparr>meshes := filter (\<lambda>(i, blk). i \<noteq> m) (meshes s)\<rparr>"

subsection \<open>The script: \<^verbatim>\<open>delete_all\<close>\<close>

text \<open>
  \<^verbatim>\<open>
  def delete_all():
      bpy.ops.object.select_all(action='SELECT')
      bpy.ops.object.delete(use_global=False)
      for block in bpy.data.meshes:
          if block.users == 0:
              bpy.data.meshes.remove(block)
  \<close>
  The loop visits the mesh blocks that exist when it starts.
\<close>

fun purge_orphans :: "nat list \<Rightarrow> scene \<Rightarrow> scene" where
  "purge_orphans [] s = s"
| "purge_orphans (m # rest) s =
     purge_orphans rest (if mesh_users s m = 0 then meshes_remove m s else s)"

definition delete_all :: "scene \<Rightarrow> scene" where
  "delete_all s =
     (let s1 = object_select_all SELECT s;
          s2 = object_delete s1
      in purge_orphans (map fst (meshes s2)) s2)"

subsection \<open>The script: \<^verbatim>\<open>make_material\<close>\<close>

text \<open>
  \<^verbatim>\<open>bpy.data.materials.new(name)\<close>: a new material with the host's defaults (no nodes,
  opaque blend mode, back faces shown).
\<close>

definition materials_new :: "string \<Rightarrow> scene \<Rightarrow> nat \<times> scene" where
  "materials_new nm s =
     (let k = fresh (materials s);
          m = \<lparr> mat_name = unique_name (map (\<lambda>(i, m). mat_name m) (materials s)) nm,
                use_nodes = False, base_color = (0.8, 0.8, 0.8, 1), alpha = 1,
                blend_method = OPAQUE, show_transparent_back = True \<rparr>
      in (k, s\<lparr>materials := materials s @ [(k, m)]\<rparr>))"

definition update_material :: "nat \<Rightarrow> (material \<Rightarrow> material) \<Rightarrow> scene \<Rightarrow> scene" where
  "update_material k f s = s\<lparr>materials := modify k f (materials s)\<rparr>"

text \<open>
  \<^verbatim>\<open>
  def make_material(name, rgba, transparent=True):
      mat = bpy.data.materials.new(name)
      mat.use_nodes = True
      bsdf = mat.node_tree.nodes["Principled BSDF"]
      bsdf.inputs['Base Color'].default_value = rgba
      bsdf.inputs['Alpha'].default_value = rgba[3]
      if transparent:
          mat.blend_method = 'BLEND'
          mat.show_transparent_back = True
      return mat
  \<close>
  The function has no object among its parameters and touches no mesh.
\<close>

definition make_material :: "string \<Rightarrow> rgba \<Rightarrow> bool \<Rightarrow> scene \<Rightarrow> nat \<times> scene" where
  "make_material nm col transparent s =
     (let (mat, s1) = materials_new nm s;
          s2 = update_material mat (\<lambda>m. m\<lparr>use_nodes := True\<rparr>) s1;
          s3 = update_material mat (\<lambda>m. m\<lparr>base_color := col\<rparr>) s2;
          s4 = update_material mat (\<lambda>m. m\<lparr>alpha := snd (snd (snd col))\<rparr>) s3;
          s5 = (if transparent
                then update_material mat (\<lambda>m. m\<lparr>show_transparent_back := True\<rparr>)
                       (update_material mat (\<lambda>m. m\<lparr>blend_method := BLEND\<rparr>) s4)
                else s4)
      in (mat, s5))"

text \<open>The value of the parameter \<^verbatim>\<open>transparent\<close> when a call leaves it out.\<close>

definition transparent_default :: bool where
  "transparent_default = True"

text \<open>
  What every caller of \<^verbatim>\<open>make_material\<close> does with the result, for its object \<open>k\<close>:
  \<^verbatim>\<open>
  if k.data.materials:
      k.data.materials[0] = mat
  else:
      k.data.materials.append(mat)
  \<close>
  Only a mesh has material slots.
\<close>

definition assign_material :: "nat \<Rightarrow> nat \<Rightarrow> scene \<Rightarrow> error + scene" where
  "assign_material k mat s =
     (case map_of (objects s) k of
        None \<Rightarrow> Inl ReferenceError
      | Some ob \<Rightarrow>
          (case data ob of
             MeshData m \<Rightarrow>
               Inr (s\<lparr>meshes := modify m
                      (\<lambda>blk. blk\<lparr>mesh_materials :=
                          (if mesh_materials blk \<noteq> [] then (mesh_materials blk)[0 := mat]
                           else mesh_materials blk @ [mat])\<rparr>)
                      (meshes s)\<rparr>)
           | _ \<Rightarrow> Inl (AttributeError ''materials'')))"

subsection \<open>Adding objects\<close>

text \<open>
  Every operator that adds an object deselects the others, selects the new object and
  makes it the active one; the script then reads it from \<^verbatim>\<open>bpy.context.active_object\<close>.
\<close>

definition add_object :: "string \<Rightarrow> data_ref \<Rightarrow> vec3 \<Rightarrow> vec3 \<Rightarrow> scene \<Rightarrow> nat \<times> scene" where
  "add_object nm d loc eul s =
     (let s1 = object_select_all DESELECT s;
          k = fresh (objects s1);
          ob = \<lparr> name = unique_name (object_names s1) nm, data = d, location = loc,
                 rotation = euler_to_mat eul, scale = (1, 1, 1), parent = None,
                 selected = True, props = [], show_in_front = False,
                 display_type = ''TEXTURED'' \<rparr>
      in (k, s1\<lparr>objects := objects s1 @ [(k, ob)], active_object := Some k\<rparr>))"

definition meshes_new :: "string \<Rightarrow> geometry \<Rightarrow> scene \<Rightarrow> nat \<times> scene" where
  "meshes_new nm g s =
     (let m = fresh (meshes s);
          blk = \<lparr> mesh_name = unique_name (map (\<lambda>(i, b). mesh_name b) (meshes s)) nm,
                  geometry = g, normals_flipped = False, faces_selected = False,
                  mesh_materials = [], use_fake_user = False \<rparr>
      in (m, s\<lparr>meshes := meshes s @ [(m, blk)]\<rparr>))"

text \<open>\<^verbatim>\<open>bpy.ops.mesh.primitive_uv_sphere_add(radius, segments, ring_count, location)\<close>.\<close>

definition primitive_uv_sphere_add :: "real \<Rightarrow> nat \<Rightarrow> nat \<Rightarrow> vec3 \<Rightarrow> scene \<Rightarrow> nat \<times> scene" where
  "primitive_uv_sphere_add radius segments ring_count loc s =
     (let (m, s1) = meshes_new ''Sphere'' (UVSphere radius segments ring_count) s
      in add_object ''Sphere'' (MeshData m) loc (0, 0, 0) s1)"

text \<open>
  \<^verbatim>\<open>bpy.ops.mesh.primitive_torus_add(major_radius, minor_radius, major_segments,
  minor_segments)\<close>: a torus around the Z axis, at the 3D cursor, not rotated.
\<close>

definition primitive_torus_add :: "real \<Rightarrow> real \<Rightarrow> nat \<Rightarrow> nat \<Rightarrow> scene \<Rightarrow> nat \<times> scene" where
  "primitive_torus_add major_radius minor_radius major_segments minor_segments s =
     (let (m, s1) = meshes_new ''Torus''
                      (Torus major_radius minor_radius major_segments minor_segments) s
      in add_object ''Torus'' (MeshData m) (cursor s1) (0, 0, 0) s1)"

text \<open>\<^verbatim>\<open>bpy.ops.object.camera_add(location, rotation)\<close>.\<close>

definition camera_add :: "host \<Rightarrow> vec3 \<Rightarrow> vec3 \<Rightarrow> scene \<Rightarrow> nat \<times> scene" where
  "camera_add h loc eul s =
     (let c = fresh (cameras s);
          s1 = s\<lparr>cameras := cameras s @ [(c, \<lparr> camera_name = camera_defname h \<rparr>)]\<rparr>
      in add_object (camera_defname h) (CameraData c) loc eul s1)"

text \<open>\<^verbatim>\<open>bpy.ops.object.light_add(type='AREA', location)\<close>.\<close>

definition light_add_area :: "host \<Rightarrow> vec3 \<Rightarrow> scene \<Rightarrow> nat \<times> scene" where
  "light_add_area h loc s =
     (let l = fresh (lights s);
          s1 = s\<lparr>lights := lights s @
                  [(l, \<lparr> light_name = area_light_defname h, light_type = ''AREA'', energy = 10 \<rparr>)]\<rparr>
      in add_object (area_light_defname h) (LightData l) loc (0, 0, 0) s1)"

subsection \<open>Object properties\<close>

definition update_object :: "nat \<Rightarrow> (obj \<Rightarrow> obj) \<Rightarrow> scene \<Rightarrow> scene" where
  "update_object k f s = s\<lparr>objects := modify k f (objects s)\<rparr>"

text \<open>\<^verbatim>\<open>obj.copy()\<close>: a new object with the same fields and the same data block.\<close>

definition object_copy :: "nat \<Rightarrow> scene \<Rightarrow> error + nat \<times> scene" where
  "object_copy k s =
     (case map_of (objects s) k of
        None \<Rightarrow> Inl ReferenceError
      | Some ob \<Rightarrow>
          (let k' = fresh (objects s);
               ob' = ob\<lparr>name := unique_name (object_names s) (name ob), selected := False\<rparr>
           in Inr (k', s\<lparr>objects := objects s @ [(k', ob')]\<rparr>)))"

text \<open>\<^verbatim>\<open>mesh.copy()\<close>: a new mesh block with the same content.\<close>

definition mesh_copy :: "nat \<Rightarrow> scene \<Rightarrow> error + nat \<times> scene" where
  "mesh_copy m s =
     (case map_of (meshes s) m of
        None \<Rightarrow> Inl ReferenceError
      | Some blk \<Rightarrow>
          (let m' = fresh (meshes s);
               blk' = blk\<lparr>mesh_name := unique_name (map (\<lambda>(i, b). mesh_name b) (meshes s)) (mesh_name blk),
                          use_fake_user := False\<rparr>
           in Inr (m', s\<lparr>meshes := meshes s @ [(m', blk')]\<rparr>)))"

subsection \<open>Edit mode\<close>

text \<open>
  \<^verbatim>\<open>bpy.ops.object.mode_set(mode='EDIT')\<close>: the active object enters edit mode, and with
  it every selected object of its type (multi-object editing). Only a mesh object of
  this model has an edit mode.
\<close>

definition mode_set_edit :: "scene \<Rightarrow> error + scene" where
  "mode_set_edit s =
     (case active_object s of
        None \<Rightarrow> Inl (RuntimeError ''mode_set'')
      | Some a \<Rightarrow>
          (case map_of (objects s) a of
             None \<Rightarrow> Inl (RuntimeError ''mode_set'')
           | Some ob \<Rightarrow>
               if type_of ob = MESH
               then Inr (s\<lparr>edit_objects := a # map fst (filter
                          (\<lambda>(i, o'). i \<noteq> a \<and> selected o' \<and> type_of o' = MESH) (objects s))\<rparr>)
               else Inl (TypeError ''mode_set'')))"

text \<open>\<^verbatim>\<open>bpy.ops.object.mode_set(mode='OBJECT')\<close>.\<close>

definition mode_set_object :: "scene \<Rightarrow> scene" where
  "mode_set_object s = s\<lparr>edit_objects := []\<rparr>"

text \<open>The meshes of the objects in edit mode.\<close>

definition mesh_of :: "scene \<Rightarrow> nat \<Rightarrow> nat list" where
  "mesh_of s k =
     (case map_of (objects s) k of
        None \<Rightarrow> []
      | Some ob \<Rightarrow> (case data ob of MeshData m \<Rightarrow> [m] | _ \<Rightarrow> []))"

definition edit_meshes :: "scene \<Rightarrow> nat list" where
  "edit_meshes s = remdups (concat (map (mesh_of s) (edit_objects s)))"

text \<open>\<^verbatim>\<open>bpy.ops.mesh.select_all(action=...)\<close>, on every mesh in edit mode.\<close>

definition mesh_select_all :: "select_action \<Rightarrow> scene \<Rightarrow> scene" where
  "mesh_select_all action s =
     s\<lparr>meshes := map (\<lambda>(m, blk). if m \<in> set (edit_meshes s)
                                   then (m, blk\<lparr>faces_selected := (action = SELECT)\<rparr>)
                                   else (m, blk)) (meshes s)\<rparr>"

text \<open>\<^verbatim>\<open>bpy.ops.mesh.flip_normals()\<close>: the selected faces of every mesh in edit mode.\<close>

definition mesh_flip_normals :: "scene \<Rightarrow> scene" where
  "mesh_flip_normals s =
     s\<lparr>meshes := map (\<lambda>(m, blk). if m \<in> set (edit_meshes s) \<and> faces_selected blk
                                   then (m, blk\<lparr>normals_flipped := \<not> normals_flipped blk\<rparr>)
                                   else (m, blk)) (meshes s)\<rparr>"

subsection \<open>The script: \<^verbatim>\<open>add_outline\<close>\<close>

text \<open>
  \<^verbatim>\<open>
  def add_outline(obj, thickness):
      outline = obj.copy()
      outline.data = obj.data.copy()
      bpy.context.collection.objects.link(outline)
      outline.scale = (1+thickness, 1+thickness, 1+thickness)
      bpy.context.view_layer.objects.active = outline
      bpy.ops.object.mode_set(mode='EDIT')
      bpy.ops.mesh.select_all(action='SELECT')
      bpy.ops.mesh.flip_normals()
      bpy.ops.object.mode_set(mode='OBJECT')
      outline_mat = make_material("outline_black", (0,0,0,1))
      if outline.data.materials:
          outline.data.materials[0] = outline_mat
      else:
          outline.data.materials.append(outline_mat)
      outline.show_in_front = True
      outline.display_type = 'SOLID'
      outline.name = obj.name + "_outline"
      return outline
  \<close>
  The object store of the model is \<^verbatim>\<open>bpy.data.objects\<close>, where the copy already is;
  linking it into the collection changes nothing the model keeps. For a source that is
  no mesh the first failure is \<^verbatim>\<open>mode_set\<close>, which has no edit mode to offer.
\<close>

definition add_outline :: "nat \<Rightarrow> real \<Rightarrow> scene \<Rightarrow> error + nat \<times> scene" where
  "add_outline obj thickness s =
     (case object_copy obj s of
        Inl e \<Rightarrow> Inl e
      | Inr (outline, s1) \<Rightarrow>
          (case map_option data (map_of (objects s1) obj) of
             Some (MeshData m) \<Rightarrow>
               (case mesh_copy m s1 of
                  Inl e \<Rightarrow> Inl e
                | Inr (m', s2) \<Rightarrow>
                    (let s3 = update_object outline (\<lambda>ob. ob\<lparr>data := MeshData m'\<rparr>) s2;
                         s4 = update_object outline
                                (\<lambda>ob. ob\<lparr>scale := (1 + thickness, 1 + thickness, 1 + thickness)\<rparr>) s3;
                         s5 = s4\<lparr>active_object := Some outline\<rparr>
                     in case mode_set_edit s5 of
                          Inl e \<Rightarrow> Inl e
                        | Inr s6 \<Rightarrow>
                            (let s7 = mesh_select_all SELECT s6;
                                 s8 = mesh_flip_normals s7;
                                 s9 = mode_set_object s8;
                                 (outline_mat, s10) =
                                    make_material ''outline_black'' (0, 0, 0, 1) transparent_default s9
                             in case assign_material outline outline_mat s10 of
                                  Inl e \<Rightarrow> Inl e
                                | Inr s11 \<Rightarrow>
                                    (let s12 = update_object outline (\<lambda>ob. ob\<lparr>show_in_front := True\<rparr>) s11;
                                         s13 = update_object outline (\<lambda>ob. ob\<lparr>display_type := ''SOLID''\<rparr>) s12
                                     in case map_of (objects s13) obj of
                                          None \<Rightarrow> Inl ReferenceError
                                        | Some ob \<Rightarrow>
                                            Inr (outline, set_name outline (name ob @ ''_outline'') s13)))))
           | _ \<Rightarrow> Inl (TypeError ''mode_set'')))"

subsection \<open>The script: \<^verbatim>\<open>add_hoop\<close>\<close>

text \<open>
  \<^verbatim>\<open>
  def add_hoop(radius, thickness, axis='Z'):
      bpy.ops.mesh.primitive_torus_add(
          major_radius=radius, minor_radius=thickness,
          major_segments=96, minor_segments=16)
      hoop = bpy.context.active_object
      if axis == 'X':
          hoop.rotation_euler = (0, math.radians(90), 0)
      elif axis == 'Y':
          hoop.rotation_euler = (math.radians(90), 0, 0)
      hoop_mat = make_material("hoop_black", (0,0,0,1))
      if hoop.data.materials:
          hoop.data.materials[0] = hoop_mat
      else:
          hoop.data.materials.append(hoop_mat)
      hoop.name = f"hoop_{axis}"
      hoop["shape_tag"] = f"hoop_{axis}"
      return hoop
  \<close>
\<close>

definition add_hoop :: "real \<Rightarrow> real \<Rightarrow> string \<Rightarrow> scene \<Rightarrow> error + nat \<times> scene" where
  "add_hoop radius thickness axis s =
     (let (hoop, s1) = primitive_torus_add radius thickness 96 16 s;
          s2 = (if axis = ''X''
                then update_object hoop (\<lambda>ob. ob\<lparr>rotation := euler_to_mat (0, radians 90, 0)\<rparr>) s1
                else if axis = ''Y''
                then update_object hoop (\<lambda>ob. ob\<lparr>rotation := euler_to_mat (radians 90, 0, 0)\<rparr>) s1
                else s1);
          (hoop_mat, s3) = make_material ''hoop_black'' (0, 0, 0, 1) transparent_default s2
      in case assign_material hoop hoop_mat s3 of
           Inl e \<Rightarrow> Inl e
         | Inr s4 \<Rightarrow>
             (let s5 = set_name hoop (''hoop_'' @ axis) s4;
                  s6 = set_prop hoop ''shape_tag'' (''hoop_'' @ axis) s5
              in Inr (hoop, s6)))"

subsection \<open>The script: \<^verbatim>\<open>add_camera_light\<close>\<close>

text \<open>\<^verbatim>\<open>light.data.energy = e\<close>: only the data block of a light has an energy.\<close>

definition set_energy :: "nat \<Rightarrow> real \<Rightarrow> scene \<Rightarrow> error + scene" where
  "set_energy k e s =
     (case map_of (objects s) k of
        None \<Rightarrow> Inl ReferenceError
      | Some ob \<Rightarrow>
          (case data ob of
             LightData l \<Rightarrow> Inr (s\<lparr>lights := modify l (\<lambda>d. d\<lparr>energy := e\<rparr>) (lights s)\<rparr>)
           | _ \<Rightarrow> Inl (AttributeError ''energy'')))"

text \<open>
  \<^verbatim>\<open>
  def add_camera_light():
      if "Camera" not in bpy.data.objects:
          bpy.ops.object.camera_add(location=(0, -4, 0), rotation=(math.radians(90), 0, 0))
      cam = bpy.data.objects["Camera"]
      bpy.context.scene.camera = cam
      if "Light" not in bpy.data.objects:
          bpy.ops.object.light_add(type='AREA', location=(0, -3, 3))
      light = bpy.data.objects["Light"]
      light.data.energy = 500
      return cam, light
  \<close>
\<close>

definition add_camera_light :: "host \<Rightarrow> scene \<Rightarrow> error + (nat \<times> nat) \<times> scene" where
  "add_camera_light h s =
     (let s1 = (if ''Camera'' \<notin> set (object_names s)
                then snd (camera_add h (0, -4, 0) (radians 90, 0, 0) s)
                else s)
      in case objects_by_name ''Camera'' s1 of
           Inl e \<Rightarrow> Inl e
         | Inr cam \<Rightarrow>
             (let s2 = s1\<lparr>scene_camera := Some cam\<rparr>;
                  s3 = (if ''Light'' \<notin> set (object_names s2)
                        then snd (light_add_area h (0, -3, 3) s2)
                        else s2)
              in case objects_by_name ''Light'' s3 of
                   Inl e \<Rightarrow> Inl e
                 | Inr light \<Rightarrow>
                     (case set_energy light 500 s3 of
                        Inl e \<Rightarrow> Inl e
                      | Inr s4 \<Rightarrow> Inr ((cam, light), s4))))"

subsection \<open>The script: \<^verbatim>\<open>export_mesh\<close>\<close>

text \<open>\<^verbatim>\<open>os.path.join\<close> of two components.\<close>

definition path_join :: "string \<Rightarrow> string \<Rightarrow> string" where
  "path_join a b =
     (if take 1 b = ''/'' then b
      else if a = [] \<or> last a = CHR ''/'' then a @ b
      else a @ ''/'' @ b)"

text \<open>\<^verbatim>\<open>for obj in obj_list: obj.select_set(state)\<close>.\<close>

fun select_each :: "nat list \<Rightarrow> bool \<Rightarrow> scene \<Rightarrow> error + scene" where
  "select_each [] b s = Inr s"
| "select_each (k # ks) b s =
     (case select_set k b s of Inl e \<Rightarrow> Inl e | Inr s1 \<Rightarrow> select_each ks b s1)"

text \<open>\<^verbatim>\<open>bpy.ops.export_scene.obj(filepath, use_selection=True, use_materials=True)\<close>.\<close>

definition export_scene_obj :: "string \<Rightarrow> scene \<Rightarrow> scene" where
  "export_scene_obj filepath s =
     s\<lparr>exports := exports s @
          [(filepath, map fst (filter (\<lambda>(i, ob). selected ob) (objects s)))]\<rparr>"

text \<open>
  \<^verbatim>\<open>
  def export_mesh(obj_list, filename):
      bpy.ops.object.select_all(action='DESELECT')
      for obj in obj_list:
          obj.select_set(True)
      bpy.ops.export_scene.obj(
          filepath=os.path.join(export_path, filename),
          use_selection=True, use_materials=True)
      for obj in obj_list:
          obj.select_set(False)
  \<close>
  \<open>export_path\<close>, the global of the script, is a parameter: the value of
  \<^verbatim>\<open>os.path.expanduser("~/Desktop/sphere_dataset/")\<close>.
\<close>

definition export_mesh :: "string \<Rightarrow> nat list \<Rightarrow> string \<Rightarrow> scene \<Rightarrow> error + scene" where
  "export_mesh export_path obj_list filename s =
     (case select_each obj_list True (object_select_all DESELECT s) of
        Inl e \<Rightarrow> Inl e
      | Inr s1 \<Rightarrow> select_each obj_list False
                    (export_scene_obj (path_join export_path filename) s1))"

subsection \<open>The script: \<^verbatim>\<open>render_view\<close>\<close>

text \<open>
  \<^verbatim>\<open>bpy.ops.transform.rotate(value, orient_axis)\<close> turns the selected objects about the
  pivot. An object with a selected ancestor is left to follow that ancestor: its own
  location and orientation, which are relative to its parent, stay as they are.
\<close>

fun selected_ancestor :: "nat \<Rightarrow> obj store \<Rightarrow> nat option \<Rightarrow> bool" where
  "selected_ancestor 0 st p = False"
| "selected_ancestor (Suc n) st None = False"
| "selected_ancestor (Suc n) st (Some k) =
     (case map_of st k of
        None \<Rightarrow> False
      | Some po \<Rightarrow> selected po \<or> selected_ancestor n st (parent po))"

definition transformed :: "obj store \<Rightarrow> obj \<Rightarrow> bool" where
  "transformed st ob = (selected ob \<and> \<not> selected_ancestor (length st) st (parent ob))"

definition rotate_obj :: "vec3 \<Rightarrow> axis \<Rightarrow> real \<Rightarrow> obj \<Rightarrow> obj" where
  "rotate_obj p ax a ob =
     ob\<lparr>location := rot_about p ax a (location ob), rotation := rot_mat ax a (rotation ob)\<rparr>"

definition rotate_objects :: "vec3 \<Rightarrow> axis \<Rightarrow> real \<Rightarrow> obj store \<Rightarrow> obj store" where
  "rotate_objects p ax a st =
     map (\<lambda>(i, ob). (i, if transformed st ob then rotate_obj p ax a ob else ob)) st"

definition transform_rotate :: "real \<Rightarrow> axis \<Rightarrow> scene \<Rightarrow> scene" where
  "transform_rotate a ax s = s\<lparr>objects := rotate_objects (pivot s) ax a (objects s)\<rparr>"

text \<open>
  \<^verbatim>\<open>bpy.ops.render.render(write_still=True)\<close>: the image file is written; the model
  keeps its path and the objects as they stand.
\<close>

definition render_render :: "scene \<Rightarrow> scene" where
  "render_render s = s\<lparr>renders := renders s @ [(render_filepath s, objects s)]\<rparr>"

text \<open>
  \<^verbatim>\<open>
  for obj in bpy.data.objects:
      if obj.type != 'CAMERA':
          obj.select_set(True)
  \<close>
\<close>

fun select_non_cameras :: "nat list \<Rightarrow> scene \<Rightarrow> scene" where
  "select_non_cameras [] s = s"
| "select_non_cameras (k # ks) s =
     select_non_cameras ks
       (update_object k (\<lambda>ob. if type_of ob \<noteq> CAMERA then ob\<lparr>selected := True\<rparr> else ob) s)"

text \<open>
  \<^verbatim>\<open>
  def render_view(name, cam, target, rotation):
      bpy.ops.object.select_all(action='DESELECT')
      for obj in bpy.data.objects:
          if obj.type != 'CAMERA':
              obj.select_set(True)
      bpy.ops.transform.rotate(value=rotation[0], orient_axis='X')
      bpy.ops.transform.rotate(value=rotation[1], orient_axis='Y')
      bpy.ops.transform.rotate(value=rotation[2], orient_axis='Z')
      bpy.context.scene.render.filepath = os.path.join(export_path, f"sphere_{name}.png")
      bpy.context.scene.render.image_settings.file_format = 'PNG'
      bpy.ops.render.render(write_still=True)
      bpy.ops.transform.rotate(value=-rotation[2], orient_axis='Z')
      bpy.ops.transform.rotate(value=-rotation[1], orient_axis='Y')
      bpy.ops.transform.rotate(value=-rotation[0], orient_axis='X')
  \<close>
  The parameters \<^verbatim>\<open>cam\<close> and \<^verbatim>\<open>target\<close> are not used; the parameter \<^verbatim>\<open>rotation\<close> is the
  triple \<open>(rx, ry, rz)\<close>.
\<close>

definition render_view :: "string \<Rightarrow> string \<Rightarrow> nat \<Rightarrow> nat \<Rightarrow> vec3 \<Rightarrow> scene \<Rightarrow> scene" where
  "render_view export_path nm cam target angles s =
     (case angles of (rx, ry, rz) \<Rightarrow>
        (let s1 = object_select_all DESELECT s;
             s2 = select_non_cameras (map fst (objects s1)) s1;
             s3 = transform_rotate rx AxisX s2;
             s4 = transform_rotate ry AxisY s3;
             s5 = transform_rotate rz AxisZ s4;
             s6 = s5\<lparr>render_filepath := path_join export_path (''sphere_'' @ nm @ ''.png'')\<rparr>;
             s7 = s6\<lparr>render_file_format := ''PNG''\<rparr>;
             s8 = render_render s7;
             s9 = transform_rotate (- rz) AxisZ s8;
             s10 = transform_rotate (- ry) AxisY s9
         in transform_rotate (- rx) AxisX s10))"

subsection \<open>The script: parameters and main part\<close>

definition SPHERE_RADIUS :: real where "SPHERE_RADIUS = 1.0"
definition SPHERE_SEGMENTS :: nat where "SPHERE_SEGMENTS = 64"
definition OPACITY :: real where "OPACITY = 0.4"
definition OUTLINE_THICKNESS :: real where "OUTLINE_THICKNESS = 0.04"
definition HOOP_THICKNESS :: real where "HOOP_THICKNESS = 0.02"

definition RENDER_VIEWS :: "(string \<times> vec3) list" where
  "RENDER_VIEWS =
     [(''front'', (0, 0, 0)),
      (''side'', (0, radians 90, 0)),
      (''top'', (radians 90, 0, 0)),
      (''3quarter'', (radians 35, radians 40, 0))]"

text \<open>
  \<^verbatim>\<open>
  bpy.ops.mesh.primitive_uv_sphere_add(radius=SPHERE_RADIUS, segments=SPHERE_SEGMENTS,
      ring_count=SPHERE_SEGMENTS, location=(0,0,0))
  sphere = bpy.context.active_object
  sphere.name = "core_sphere"
  sphere["shape_tag"] = "sphere_core"
  sphere_mat = make_material("sphere_transparent", (1,1,1,OPACITY), transparent=True)
  if sphere.data.materials:
      sphere.data.materials[0] = sphere_mat
  else:
      sphere.data.materials.append(sphere_mat)
  \<close>
\<close>

definition make_sphere :: "scene \<Rightarrow> error + nat \<times> scene" where
  "make_sphere s =
     (let (sphere, s1) = primitive_uv_sphere_add SPHERE_RADIUS SPHERE_SEGMENTS SPHERE_SEGMENTS (0, 0, 0) s;
          s2 = set_name sphere ''core_sphere'' s1;
          s3 = set_prop sphere ''shape_tag'' ''sphere_core'' s2;
          (sphere_mat, s4) = make_material ''sphere_transparent'' (1, 1, 1, OPACITY) True s3
      in case assign_material sphere sphere_mat s4 of
           Inl e \<Rightarrow> Inl e
         | Inr s5 \<Rightarrow> Inr (sphere, s5))"

text \<open>
  \<^verbatim>\<open>
  delete_all()
  ... the sphere, as above ...
  outline = add_outline(sphere, OUTLINE_THICKNESS)
  outline["shape_tag"] = "sphere_outline"
  hoop1 = add_hoop(SPHERE_RADIUS, HOOP_THICKNESS, axis='Z')
  hoop2 = add_hoop(SPHERE_RADIUS, HOOP_THICKNESS, axis='X')
  for child in [outline, hoop1, hoop2]:
      child.parent = sphere
  \<close>
  The result is the four tracked objects, in the order of the export list
  \<^verbatim>\<open>[sphere, outline, hoop1, hoop2]\<close>.
\<close>

definition build_asset :: "scene \<Rightarrow> error + nat list \<times> scene" where
  "build_asset s0 =
     (case make_sphere (delete_all s0) of
        Inl e \<Rightarrow> Inl e
      | Inr (sphere, s1) \<Rightarrow>
          (case add_outline sphere OUTLINE_THICKNESS s1 of
             Inl e \<Rightarrow> Inl e
           | Inr (outline, s2) \<Rightarrow>
               (case add_hoop SPHERE_RADIUS HOOP_THICKNESS ''Z''
                       (set_prop outline ''shape_tag'' ''sphere_outline'' s2) of
                  Inl e \<Rightarrow> Inl e
                | Inr (hoop1, s3) \<Rightarrow>
                    (case add_hoop SPHERE_RADIUS HOOP_THICKNESS ''X'' s3 of
                       Inl e \<Rightarrow> Inl e
                     | Inr (hoop2, s4) \<Rightarrow>
                         Inr ([sphere, outline, hoop1, hoop2],
                              fold (\<lambda>child. update_object child (\<lambda>ob. ob\<lparr>parent := Some sphere\<rparr>))
                                [outline, hoop1, hoop2] s4)))))"

text \<open>
  \<^verbatim>\<open>
  with open(os.path.join(export_path, "core_sphere_labels.csv"), "w") as f:
      f.write("object,shape_tag\n")
      f.write("core_sphere,sphere_core\n")
      f.write("core_sphere_outline,sphere_outline\n")
      f.write("hoop_Z,hoop_Z\n")
      f.write("hoop_X,hoop_X\n")
  \<close>
\<close>

definition newline :: string where
  "newline = [CHR 0x0A]"

definition file_open_w :: "string \<Rightarrow> scene \<Rightarrow> scene" where
  "file_open_w path s = s\<lparr>files := AList.update path [] (files s)\<rparr>"

definition file_write :: "string \<Rightarrow> string \<Rightarrow> scene \<Rightarrow> scene" where
  "file_write path txt s =
     s\<lparr>files := AList.update path
                  ((case map_of (files s) path of None \<Rightarrow> [] | Some old \<Rightarrow> old) @ txt) (files s)\<rparr>"

definition labels_path :: "string \<Rightarrow> string" where
  "labels_path export_path = path_join export_path ''core_sphere_labels.csv''"

definition write_labels :: "string \<Rightarrow> scene \<Rightarrow> scene" where
  "write_labels export_path s =
     (let f = labels_path export_path;
          s1 = file_open_w f s;
          s2 = file_write f (''object,shape_tag'' @ newline) s1;
          s3 = file_write f (''core_sphere,sphere_core'' @ newline) s2;
          s4 = file_write f (''core_sphere_outline,sphere_outline'' @ newline) s3;
          s5 = file_write f (''hoop_Z,hoop_Z'' @ newline) s4
      in file_write f (''hoop_X,hoop_X'' @ newline) s5)"

text \<open>
  The main part of the script, from \<^verbatim>\<open>delete_all()\<close> to the label file:
  \<^verbatim>\<open>
  ... the four objects, as above ...
  export_mesh([sphere, outline, hoop1, hoop2], "core_sphere.obj")
  cam, light = add_camera_light()
  bpy.ops.object.select_all(action='DESELECT')
  sphere.select_set(True)
  outline.select_set(True)
  hoop1.select_set(True)
  hoop2.select_set(True)
  for view_name, rot in RENDER_VIEWS:
      render_view(view_name, cam, sphere, rot)
  ... the label file, as above ...
  \<close>
\<close>

definition render_views :: "string \<Rightarrow> nat \<Rightarrow> nat \<Rightarrow> (string \<times> vec3) list \<Rightarrow> scene \<Rightarrow> scene" where
  "render_views export_path cam target views s =
     fold (\<lambda>(view_name, rot). render_view export_path view_name cam target rot) views s"

definition main :: "host \<Rightarrow> string \<Rightarrow> scene \<Rightarrow> error + nat list \<times> scene" where
  "main h export_path s0 =
     (case build_asset s0 of
        Inl e \<Rightarrow> Inl e
      | Inr (tracked, s1) \<Rightarrow>
          (case export_mesh export_path tracked ''core_sphere.obj'' s1 of
             Inl e \<Rightarrow> Inl e
           | Inr s2 \<Rightarrow>
               (case add_camera_light h s2 of
                  Inl e \<Rightarrow> Inl e
                | Inr ((cam, light), s3) \<Rightarrow>
                    (case select_each tracked True (object_select_all DESELECT s3) of
                       Inl e \<Rightarrow> Inl e
                     | Inr s4 \<Rightarrow>
                         Inr (tracked,
                              write_labels export_path
                                (render_views export_path cam (hd tracked) RENDER_VIEWS s4))))))"

subsection \<open>Reading the label file\<close>

text \<open>The lines of a text, and the fields of a line of comma-separated values.\<close>

fun split_on :: "char \<Rightarrow> string \<Rightarrow> string list" where
  "split_on c [] = [[]]"
| "split_on c (x # xs) =
     (if x = c then [] # split_on c xs
      else (case split_on c xs of
              [] \<Rightarrow> [[x]]
            | w # ws \<Rightarrow> (x # w) # ws))"

definition text_lines :: "string \<Rightarrow> string list" where
  "text_lines txt =
     (let ls = split_on (CHR 0x0A) txt
      in if ls \<noteq> [] \<and> last ls = [] then butlast ls else ls)"

definition csv_rows :: "string \<Rightarrow> string list list" where
  "csv_rows txt = map (split_on (CHR '','')) (tl (text_lines txt))"

subsection \<open>Observations\<close>

text \<open>The transform of every object: location, orientation and scale.\<close>

definition transforms :: "scene \<Rightarrow> (nat \<times> vec3 \<times> mat3 \<times> vec3) list" where
  "transforms s = map (\<lambda>(i, ob). (i, location ob, rotation ob, scale ob)) (objects s)"

text \<open>The selection a state has once \<^verbatim>\<open>render_view\<close> has selected what it turns.\<close>

definition non_cameras_selected :: "scene \<Rightarrow> bool" where
  "non_cameras_selected s = list_all (\<lambda>(i, ob). selected ob = (type_of ob \<noteq> CAMERA)) (objects s)"

text \<open>The mesh block of an object, and the material in its first slot.\<close>

definition object_mesh :: "scene \<Rightarrow> nat \<Rightarrow> mesh option" where
  "object_mesh s k =
     (case map_of (objects s) k of
        None \<Rightarrow> None
      | Some ob \<Rightarrow> (case data ob of MeshData m \<Rightarrow> map_of (meshes s) m | _ \<Rightarrow> None))"

definition slot0_material :: "scene \<Rightarrow> nat \<Rightarrow> material option" where
  "slot0_material s k =
     (case object_mesh s k of
        None \<Rightarrow> None
      | Some blk \<Rightarrow> (case mesh_materials blk of [] \<Rightarrow> None | mat # _ \<Rightarrow> map_of (materials s) mat))"

text \<open>What is seen of a material: base colour, alpha, blend mode, back faces shown.\<close>

definition appearance :: "material \<Rightarrow> rgba \<times> real \<times> blend_mode \<times> bool" where
  "appearance m = (base_color m, alpha m, blend_method m, show_transparent_back m)"

text \<open>The direction of the axis of a torus object: the image of the Z axis.\<close>

definition torus_axis :: "obj \<Rightarrow> vec3" where
  "torus_axis ob = apply_mat (rotation ob) (0, 0, 1)"

text \<open>The row of the label file that an object stands for: its name and its shape tag.\<close>

definition object_label :: "scene \<Rightarrow> nat \<Rightarrow> string list" where
  "object_label s k =
     (case map_of (objects s) k of
        None \<Rightarrow> []
      | Some ob \<Rightarrow> (case shape_tag ob of None \<Rightarrow> [name ob] | Some tag \<Rightarrow> [name ob, tag]))"

text \<open>An observation of the object a function returns, in the state it returns.\<close>

fun returned :: "(scene \<Rightarrow> nat \<Rightarrow> 'a option) \<Rightarrow> error + nat \<times> scene \<Rightarrow> 'a option" where
  "returned f (Inl e) = None"
| "returned f (Inr (k, s)) = f s k"

text \<open>
  The scene in which the script calls \<^verbatim>\<open>add_outline\<close> when it starts in the empty scene,
  and the sphere it passes.
\<close>

definition sphere_scene :: scene where
  "sphere_scene = (case make_sphere (delete_all empty_scene) of Inl e \<Rightarrow> empty_scene | Inr (k, s) \<Rightarrow> s)"

definition sphere_key :: nat where
  "sphere_key = (case make_sphere (delete_all empty_scene) of Inl e \<Rightarrow> 0 | Inr (k, s) \<Rightarrow> k)"

subsection \<open>Closed forms\<close>

text \<open>The material that \<^verbatim>\<open>make_material\<close> leaves in the store.\<close>

definition made_material :: "string \<Rightarrow> rgba \<Rightarrow> bool \<Rightarrow> scene \<Rightarrow> material" where
  "made_material nm col transparent s =
     \<lparr> mat_name = unique_name (map (\<lambda>(i, m). mat_name m) (materials s)) nm,
       use_nodes = True, base_color = col, alpha = snd (snd (snd col)),
       blend_method = (if transparent then BLEND else OPAQUE),
       show_transparent_back = True \<rparr>"

text \<open>
  The meshes of the selected mesh objects, which enter edit mode with the active object,
  and what selecting and flipping does to a store.
\<close>

definition selected_mesh_keys :: "scene \<Rightarrow> nat list" where
  "selected_mesh_keys s =
     concat (map (mesh_of s)
       (map fst (filter (\<lambda>(i, ob). selected ob \<and> type_of ob = MESH) (objects s))))"

definition flip_selected :: "nat list \<Rightarrow> mesh store \<Rightarrow> mesh store" where
  "flip_selected ms st =
     map (\<lambda>(i, b). if i \<in> set ms
                    then (i, b\<lparr>faces_selected := True, normals_flipped := \<not> normals_flipped b\<rparr>)
                    else (i, b)) st"

text \<open>The object and the mesh that \<^verbatim>\<open>add_outline\<close> adds for a source \<open>ob\<close> with mesh \<open>blk\<close>.\<close>

definition outline_object :: "scene \<Rightarrow> obj \<Rightarrow> real \<Rightarrow> obj" where
  "outline_object s ob t =
     ob\<lparr>name := unique_name (object_names s) (name ob @ ''_outline''),
        data := MeshData (fresh (meshes s)),
        scale := (1 + t, 1 + t, 1 + t),
        selected := False, show_in_front := True, display_type := ''SOLID''\<rparr>"

definition outline_mesh :: "scene \<Rightarrow> mesh \<Rightarrow> mesh" where
  "outline_mesh s blk =
     blk\<lparr>mesh_name := unique_name (map (\<lambda>(i, b). mesh_name b) (meshes s)) (mesh_name blk),
         use_fake_user := False, faces_selected := True,
         normals_flipped := \<not> normals_flipped blk,
         mesh_materials := (if mesh_materials blk \<noteq> []
                            then (mesh_materials blk)[0 := fresh (materials s)]
                            else mesh_materials blk @ [fresh (materials s)])\<rparr>"

text \<open>The objects after an operator has deselected them all.\<close>

definition deselected :: "obj store \<Rightarrow> obj store" where
  "deselected st = map (\<lambda>(i, ob). (i, ob\<lparr>selected := False\<rparr>)) st"

text \<open>The object and the mesh that the main part adds for the sphere.\<close>

definition sphere_object :: "scene \<Rightarrow> obj" where
  "sphere_object s =
     \<lparr> name = unique_name (object_names s) ''core_sphere'', data = MeshData (fresh (meshes s)),
       location = (0, 0, 0), rotation = identity_mat, scale = (1, 1, 1), parent = None,
       selected = True, props = [(''shape_tag'', ''sphere_core'')], show_in_front = False,
       display_type = ''TEXTURED'' \<rparr>"

definition sphere_mesh :: "scene \<Rightarrow> mesh" where
  "sphere_mesh s =
     \<lparr> mesh_name = unique_name (map (\<lambda>(i, b). mesh_name b) (meshes s)) ''Sphere'',
       geometry = UVSphere SPHERE_RADIUS SPHERE_SEGMENTS SPHERE_SEGMENTS,
       normals_flipped = False, faces_selected = False,
       mesh_materials = [fresh (materials s)], use_fake_user = False \<rparr>"

text \<open>The object and the mesh that \<^verbatim>\<open>add_hoop\<close> adds.\<close>

definition hoop_object :: "scene \<Rightarrow> string \<Rightarrow> obj" where
  "hoop_object s ax =
     \<lparr> name = unique_name (object_names s) (''hoop_'' @ ax), data = MeshData (fresh (meshes s)),
       location = cursor s,
       rotation = (if ax = ''X'' then euler_to_mat (0, radians 90, 0)
                   else if ax = ''Y'' then euler_to_mat (radians 90, 0, 0)
                   else identity_mat),
       scale = (1, 1, 1), parent = None,
       selected = True, props = [(''shape_tag'', ''hoop_'' @ ax)], show_in_front = False,
       display_type = ''TEXTURED'' \<rparr>"

definition hoop_mesh :: "scene \<Rightarrow> real \<Rightarrow> real \<Rightarrow> mesh" where
  "hoop_mesh s radius thickness =
     \<lparr> mesh_name = unique_name (map (\<lambda>(i, b). mesh_name b) (meshes s)) ''Torus'',
       geometry = Torus radius thickness 96 16,
       normals_flipped = False, faces_selected = False,
       mesh_materials = [fresh (materials s)], use_fake_user = False \<rparr>"

text \<open>The text that the five writes of the label block add up to.\<close>

definition labels_text :: string where
  "labels_text = ''object,shape_tag'' @ newline @ ''core_sphere,sphere_core'' @ newline
      @ ''core_sphere_outline,sphere_outline'' @ newline @ ''hoop_Z,hoop_Z'' @ newline
      @ ''hoop_X,hoop_X'' @ newline"

text \<open>
  What the label file is about: key, name, shape tag and type of every object; and this
  view of the four tracked objects once they are built.
\<close>

definition view :: "scene \<Rightarrow> (nat \<times> string \<times> string option \<times> obj_type) list" where
  "view s = map (\<lambda>(i, ob). (i, name ob, shape_tag ob, type_of ob)) (objects s)"

definition tracked_view :: "(nat \<times> string \<times> string option \<times> obj_type) list" where
  "tracked_view =
     [(1, ''core_sphere'', Some ''sphere_core'', MESH),
      (2, ''core_sphere_outline'', Some ''sphere_outline'', MESH),
      (3, ''hoop_Z'', Some ''hoop_Z'', MESH),
      (4, ''hoop_X'', Some ''hoop_X'', MESH)]"

section \<open>Stores\<close>

lemma fold_max_ge: "(a::nat) \<le> fold max xs a"
  by (induction xs arbitrary: a) (auto intro: order_trans [OF max.cobounded2])

lemma fold_max_mem: "(x::nat) \<in> set xs \<Longrightarrow> x \<le> fold max xs a"
proof (induction xs arbitrary: a)
  case Nil
  then show ?case by simp
next
  case (Cons y ys)
  show ?case
  proof (cases "x = y")
    case True
    have "x \<le> max y a" using True by simp
    also have "\<dots> \<le> fold max ys (max y a)" by (rule fold_max_ge)
    finally show ?thesis by simp
  next
    case False
    with Cons show ?thesis by simp
  qed
qed

lemma fresh_not_key: "k \<in> fst ` set st \<Longrightarrow> k \<noteq> fresh st"
proof -
  assume "k \<in> fst ` set st"
  then have "k \<in> set (map fst st)" by simp
  then have "k \<le> fold max (map fst st) 0" by (rule fold_max_mem)
  then show ?thesis by (simp add: fresh_def)
qed

lemma map_of_fresh [simp]: "map_of st (fresh st) = None"
  using fresh_not_key [of "fresh st" st] by (auto simp: map_of_eq_None_iff)

lemma map_of_Some_not_fresh: "map_of st k = Some v \<Longrightarrow> k \<noteq> fresh st"
  by auto

lemma modify_keys [simp]: "map fst (modify k f st) = map fst st"
  by (induction st) (auto simp: modify_def)

lemma map_of_modify: "map_of (modify k f st) j = (if j = k then map_option f (map_of st k) else map_of st j)"
  by (induction st) (auto simp: modify_def)

lemma modify_absent: "map_of st k = None \<Longrightarrow> modify k f st = st"
  by (induction st) (auto simp: modify_def split: if_splits)

lemma modify_append: "modify k f (xs @ ys) = modify k f xs @ modify k f ys"
  by (simp add: modify_def)

lemma modify_fresh [simp]: "modify (fresh st) f (st @ [(fresh st, v)]) = st @ [(fresh st, f v)]"
  by (simp add: modify_append modify_absent) (simp add: modify_def)

lemma map_of_snoc: "map_of (st @ [(k, v)]) j = (case map_of st j of Some x \<Rightarrow> Some x | None \<Rightarrow> if j = k then Some v else None)"
  by (simp add: map_of_append map_add_def split: option.splits)

lemma fresh_snoc_ne [simp]: "fresh (st @ [(fresh st, v)]) \<noteq> fresh st"
  using fresh_not_key [of "fresh st" "st @ [(fresh st, v)]"] by auto

section \<open>Scene reset\<close>

lemma map_of_filter_neq: "m \<noteq> r \<Longrightarrow> map_of (filter (\<lambda>(i, blk). i \<noteq> r) st) m = map_of st m"
  by (induction st) auto

lemma objects_meshes_remove: "objects (meshes_remove m s) = objects s"
  by (simp add: meshes_remove_def)

lemma meshes_meshes_remove: "meshes (meshes_remove m s) = filter (\<lambda>(i, blk). i \<noteq> m) (meshes s)"
  by (simp add: meshes_remove_def)

lemma objects_purge: "objects (purge_orphans ms s) = objects s"
  by (induction ms arbitrary: s) (auto simp: objects_meshes_remove)

lemma mesh_users_remove_other: "m \<noteq> r \<Longrightarrow> mesh_users (meshes_remove r s) m = mesh_users s m"
  by (simp add: mesh_users_def meshes_remove_def map_of_filter_neq)

lemma meshes_purge:
  "meshes (purge_orphans ms s) = filter (\<lambda>(i, blk). \<not> (i \<in> set ms \<and> mesh_users s i = 0)) (meshes s)"
proof (induction ms arbitrary: s)
  case Nil
  then show ?case by simp
next
  case (Cons m ms)
  show ?case
  proof (cases "mesh_users s m = 0")
    case True
    have step: "(a \<noteq> m \<and> \<not> (a \<in> set ms \<and> mesh_users (meshes_remove m s) a = 0))
         = (\<not> (a \<in> set (m # ms) \<and> mesh_users s a = 0))" for a
      using True by (cases "a = m") (simp_all add: mesh_users_remove_other)
    have "meshes (purge_orphans (m # ms) s) = meshes (purge_orphans ms (meshes_remove m s))"
      using True by simp
    also have "\<dots> = filter (\<lambda>(i, blk). \<not> (i \<in> set ms \<and> mesh_users (meshes_remove m s) i = 0))
                       (filter (\<lambda>(i, blk). i \<noteq> m) (meshes s))"
      by (simp only: Cons.IH meshes_meshes_remove)
    also have "\<dots> = filter (\<lambda>(i, blk). \<not> (i \<in> set (m # ms) \<and> mesh_users s i = 0)) (meshes s)"
      unfolding filter_filter by (rule filter_cong) (use step in \<open>auto simp: split_beta\<close>)
    finally show ?thesis .
  next
    case False
    have "meshes (purge_orphans (m # ms) s) = meshes (purge_orphans ms s)"
      using False by simp
    also have "\<dots> = filter (\<lambda>(i, blk). \<not> (i \<in> set (m # ms) \<and> mesh_users s i = 0)) (meshes s)"
      unfolding Cons.IH by (rule filter_cong) (use False in auto)
    finally show ?thesis .
  qed
qed

lemma purge_orphans_only_meshes: "\<exists>ms'. purge_orphans ms s = s\<lparr>meshes := ms'\<rparr>"
proof (induction ms arbitrary: s)
  case Nil
  have "s = s\<lparr>meshes := meshes s\<rparr>" by simp
  then show ?case by (metis purge_orphans.simps(1))
next
  case (Cons m ms)
  show ?case
  proof (cases "mesh_users s m = 0")
    case True
    from Cons.IH [of "meshes_remove m s"] obtain ms'
      where "purge_orphans ms (meshes_remove m s) = (meshes_remove m s)\<lparr>meshes := ms'\<rparr>" ..
    then have "purge_orphans (m # ms) s = s\<lparr>meshes := ms'\<rparr>"
      using True by (simp add: meshes_remove_def)
    then show ?thesis ..
  next
    case False
    then show ?thesis using Cons.IH [of s] by simp
  qed
qed

lemma purge_orphans_other_fields:
  "purge_orphans ms s = s\<lparr>meshes := meshes (purge_orphans ms s)\<rparr>"
proof -
  obtain ms' where e: "purge_orphans ms s = s\<lparr>meshes := ms'\<rparr>"
    using purge_orphans_only_meshes by blast
  show ?thesis by (simp add: e)
qed

lemma objects_deleted: "objects (object_delete (object_select_all SELECT s)) = []"
  by (simp add: object_delete_def object_select_all_def Let_def filter_False split_beta)

lemma objects_delete_all: "objects (delete_all s) = []"
  by (simp add: delete_all_def Let_def objects_purge objects_deleted)

lemma mesh_users_no_objects:
  "objects s = [] \<Longrightarrow> mesh_users s m =
     (case map_of (meshes s) m of None \<Rightarrow> 0 | Some blk \<Rightarrow> if use_fake_user blk then 1 else 0)"
  by (simp add: mesh_users_def)

lemma purge_fixpoint:
  assumes "list_all (\<lambda>(m, blk). mesh_users s m \<noteq> 0) (meshes s)"
  shows "purge_orphans (map fst (meshes s)) s = s"
proof -
  have "meshes (purge_orphans (map fst (meshes s)) s) = meshes s"
    unfolding meshes_purge using assms
    by (auto simp: list_all_iff filter_id_conv)
  then show ?thesis
    using purge_orphans_other_fields [of "map fst (meshes s)" s] by simp
qed

lemma map_of_filter_keys:
  "map_of (filter (\<lambda>(i, blk). P i) st) m = (if P m then map_of st m else None)"
  by (induction st) auto

lemma orphans_purged: "list_all (\<lambda>(m, blk). mesh_users (delete_all s) m \<noteq> 0) (meshes (delete_all s))"
proof -
  let ?s2 = "object_delete (object_select_all SELECT s)"
  let ?P = "\<lambda>i. \<not> (i \<in> set (map fst (meshes ?s2)) \<and> mesh_users ?s2 i = 0)"
  have m: "meshes (delete_all s) = filter (\<lambda>(i, blk). ?P i) (meshes ?s2)"
    by (simp add: delete_all_def Let_def meshes_purge)
  have u: "mesh_users (delete_all s) i = mesh_users ?s2 i" if "?P i" for i
    using that
    by (simp add: mesh_users_no_objects objects_delete_all objects_deleted m map_of_filter_keys)
  have "mesh_users (delete_all s) i \<noteq> 0" if mem: "(i, blk) \<in> set (meshes (delete_all s))" for i blk
  proof -
    from mem have p: "?P i" and "(i, blk) \<in> set (meshes ?s2)" unfolding m by auto
    then have "mesh_users ?s2 i \<noteq> 0" by force
    with u [OF p] show ?thesis by simp
  qed
  then show ?thesis
    by (auto simp: list_all_iff)
qed

lemma delete_nothing: "objects s = [] \<Longrightarrow> object_delete (object_select_all SELECT s) = s"
  by (simp add: object_delete_def object_select_all_def Let_def drop_ref_def split: option.splits)

lemma delete_all_twice: "delete_all (delete_all s) = delete_all s"
proof -
  let ?t = "delete_all s"
  have "object_delete (object_select_all SELECT ?t) = ?t"
    by (rule delete_nothing) (rule objects_delete_all)
  then have "delete_all ?t = purge_orphans (map fst (meshes ?t)) ?t"
    by (simp add: delete_all_def [of ?t] Let_def)
  also have "\<dots> = ?t"
    by (rule purge_fixpoint) (rule orphans_purged)
  finally show ?thesis .
qed

lemma delete_all_empty_scene: "delete_all empty_scene = empty_scene"
  by (simp add: delete_all_def empty_scene_def object_delete_def object_select_all_def drop_ref_def)

text \<open>
  C8. \<^verbatim>\<open>delete_all\<close> removes every object and leaves no mesh block without a user; run
  on its own result it changes nothing, and on the empty scene it leaves no object. It
  raises nothing: it is a total function of the scene.
\<close>

theorem delete_all_idempotent:
  "objects (delete_all s) = []
   \<and> list_all (\<lambda>(m, blk). mesh_users (delete_all s) m \<noteq> 0) (meshes (delete_all s))
   \<and> delete_all (delete_all s) = delete_all s
   \<and> length (objects (delete_all empty_scene)) = 0
   \<and> delete_all empty_scene = empty_scene"
  by (intro conjI objects_delete_all orphans_purged delete_all_twice delete_all_empty_scene)
     (simp add: objects_delete_all)

section \<open>Materials and outline\<close>

lemma make_material_closed:
  "make_material nm col transparent s =
     (fresh (materials s),
      s\<lparr>materials := materials s @ [(fresh (materials s), made_material nm col transparent s)]\<rparr>)"
  by (simp add: make_material_def materials_new_def update_material_def Let_def made_material_def)





lemma map_of_snoc_old: "map_of st j = Some x \<Longrightarrow> map_of (st @ [(k, v)]) j = Some x"
  by (simp add: map_of_snoc)

lemma map_of_snoc_fresh [simp]: "map_of (st @ [(fresh st, v)]) (fresh st) = Some v"
  by (simp add: map_of_snoc del: map_of_append)

lemma key_not_fresh: "(i, x) \<in> set st \<Longrightarrow> i \<noteq> fresh st"
  using fresh_not_key [of i st] by force

lemma map_of_snoc_key: "(i, x) \<in> set st \<Longrightarrow> map_of (st @ [(k, v)]) i = map_of st i"
  by (cases "map_of st i") (auto simp: map_of_snoc map_of_eq_None_iff image_iff)

lemma fresh_notin_keys: "fresh st \<notin> set (map fst st)"
  using fresh_not_key [of "fresh st" st] by auto

lemma filter_not_fresh [simp]: "filter (\<lambda>(i, x). i \<noteq> fresh st) st = st"
  by (rule filter_True) (auto dest: key_not_fresh)

lemma modify_snoc_new:
  "k \<notin> set (map fst st) \<Longrightarrow> modify k f (st @ [(k, v)]) = st @ [(k, f v)]"
  by (simp add: modify_append modify_absent map_of_eq_None_iff) (simp add: modify_def)

lemma keys_flip_selected [simp]: "map fst (flip_selected ms st) = map fst st"
  by (induction st) (auto simp: flip_selected_def)

lemma modify_flip_fresh [simp]:
  "modify (fresh st) f (flip_selected ms st @ [(fresh st, v)]) = flip_selected ms st @ [(fresh st, f v)]"
  using fresh_notin_keys [of st] by (intro modify_snoc_new) simp

lemma mesh_of_cong: "objects s' = objects s \<Longrightarrow> mesh_of s' = mesh_of s"
  by (simp add: mesh_of_def fun_eq_iff)

lemma edit_meshes_cong:
  "objects s' = objects s \<Longrightarrow> edit_objects s' = edit_objects s \<Longrightarrow> edit_meshes s' = edit_meshes s"
  using mesh_of_cong [of s' s] by (simp add: edit_meshes_def)

lemma add_outline_closed:
  assumes ob: "map_of (objects s) obj = Some ob" and d: "data ob = MeshData m"
    and b: "map_of (meshes s) m = Some blk"
  shows "add_outline obj t s =
     Inr (fresh (objects s),
          s\<lparr>objects := objects s @ [(fresh (objects s), outline_object s ob t)],
            meshes := flip_selected (selected_mesh_keys s) (meshes s)
                        @ [(fresh (meshes s), outline_mesh s blk)],
            materials := materials s @ [(fresh (materials s),
                            made_material ''outline_black'' (0, 0, 0, 1) True s)],
            active_object := Some (fresh (objects s)),
            edit_objects := []\<rparr>)"
proof -
  let ?k = "fresh (objects s)" and ?m = "fresh (meshes s)"
  let ?ob1 = "ob\<lparr>name := unique_name (object_names s) (name ob), selected := False\<rparr>"
  let ?blk1 = "blk\<lparr>mesh_name := unique_name (map (\<lambda>(i, b). mesh_name b) (meshes s)) (mesh_name blk),
                    use_fake_user := False\<rparr>"
  let ?s1 = "s\<lparr>objects := objects s @ [(?k, ?ob1)]\<rparr>"
  let ?s2 = "?s1\<lparr>meshes := meshes s @ [(?m, ?blk1)]\<rparr>"
  let ?ob5 = "?ob1\<lparr>data := MeshData ?m, scale := (1 + t, 1 + t, 1 + t)\<rparr>"
  let ?s5 = "s\<lparr>objects := objects s @ [(?k, ?ob5)], meshes := meshes s @ [(?m, ?blk1)],
               active_object := Some ?k\<rparr>"
  let ?eo = "?k # map fst (filter (\<lambda>(i, o'). selected o' \<and> type_of o' = MESH) (objects s))"
  let ?s6 = "?s5\<lparr>edit_objects := ?eo\<rparr>"
  have c1: "object_copy obj s = Inr (?k, ?s1)"
    by (simp add: object_copy_def ob Let_def)
  have l1: "map_option data (map_of (objects ?s1) obj) = Some (MeshData m)"
    by (simp add: map_of_snoc_old [OF ob] d del: map_of_append)
  have c2: "mesh_copy m ?s1 = Inr (?m, ?s2)"
    by (simp add: mesh_copy_def b Let_def)
  have s5: "(update_object ?k (\<lambda>ob. ob\<lparr>scale := (1 + t, 1 + t, 1 + t)\<rparr>)
              (update_object ?k (\<lambda>ob. ob\<lparr>data := MeshData ?m\<rparr>) ?s2))\<lparr>active_object := Some ?k\<rparr> = ?s5"
    by (simp add: update_object_def)
  have flt: "filter (\<lambda>(i, o'). i \<noteq> ?k \<and> selected o' \<and> type_of o' = MESH) (objects s)
           = filter (\<lambda>(i, o'). selected o' \<and> type_of o' = MESH) (objects s)"
    by (rule filter_cong) (auto dest: key_not_fresh)
  have ty: "type_of ?ob5 = MESH"
    by (simp add: type_of_def)
  have c6: "mode_set_edit ?s5 = Inr ?s6"
    by (simp add: mode_set_edit_def ty flt del: map_of_append)
  have mo: "mesh_of ?s6 i = mesh_of s i" if "(i, x) \<in> set (objects s)" for i x
    using that by (simp add: mesh_of_def map_of_snoc_key del: map_of_append)
  have mk: "mesh_of ?s6 ?k = [?m]"
    by (simp add: mesh_of_def del: map_of_append)
  have "map (mesh_of ?s6) (map fst (filter (\<lambda>(i, o'). selected o' \<and> type_of o' = MESH) (objects s)))
      = map (mesh_of s) (map fst (filter (\<lambda>(i, o'). selected o' \<and> type_of o' = MESH) (objects s)))"
    by (rule map_cong) (auto simp: mo)
  then have cm: "concat (map (mesh_of ?s6)
        (map fst (filter (\<lambda>(i, o'). selected o' \<and> type_of o' = MESH) (objects s))))
      = selected_mesh_keys s"
    unfolding selected_mesh_keys_def by (rule arg_cong)
  have "edit_meshes ?s6 = remdups (concat (map (mesh_of ?s6) ?eo))"
    by (simp add: edit_meshes_def)
  also have "\<dots> = remdups (?m # selected_mesh_keys s)"
    by (simp only: list.map concat.simps mk cm append_Cons append_Nil)
  finally have "set (edit_meshes ?s6) = set (remdups (?m # selected_mesh_keys s))"
    by (rule arg_cong)
  then have em: "set (edit_meshes ?s6) = insert ?m (set (selected_mesh_keys s))"
    by (simp only: set_remdups list.set)
  let ?E = "insert ?m (set (selected_mesh_keys s))"
  have sa: "mesh_select_all SELECT ?s6
      = ?s6\<lparr>meshes := map (\<lambda>(m, blk). if m \<in> ?E then (m, blk\<lparr>faces_selected := True\<rparr>) else (m, blk))
                         (meshes s @ [(?m, ?blk1)])\<rparr>"
    unfolding mesh_select_all_def em by (simp cong: if_cong)
  have e7: "edit_meshes (mesh_select_all SELECT ?s6) = edit_meshes ?s6"
    by (rule edit_meshes_cong) (simp_all add: mesh_select_all_def)
  have fl: "mesh_flip_normals (mesh_select_all SELECT ?s6)
      = ?s6\<lparr>meshes := map (\<lambda>(m, blk). if m \<in> ?E \<and> faces_selected blk
                 then (m, blk\<lparr>normals_flipped := \<not> normals_flipped blk\<rparr>) else (m, blk))
            (map (\<lambda>(m, blk). if m \<in> ?E then (m, blk\<lparr>faces_selected := True\<rparr>) else (m, blk))
                         (meshes s @ [(?m, ?blk1)]))\<rparr>"
    unfolding mesh_flip_normals_def e7 em unfolding sa by simp
  have old: "i \<noteq> ?m" if "(i, x) \<in> set (meshes s)" for i x
    using that by (rule key_not_fresh)
  have mm: "map (\<lambda>(m, blk). if m \<in> ?E \<and> faces_selected blk
                 then (m, blk\<lparr>normals_flipped := \<not> normals_flipped blk\<rparr>) else (m, blk))
            (map (\<lambda>(m, blk). if m \<in> ?E then (m, blk\<lparr>faces_selected := True\<rparr>) else (m, blk)) (meshes s))
          = flip_selected (selected_mesh_keys s) (meshes s)"
    unfolding flip_selected_def map_map
  proof (rule map_cong [OF refl])
    fix x assume mem: "x \<in> set (meshes s)"
    obtain i b where x: "x = (i, b)" by (cases x)
    have "i \<noteq> ?m" using old mem x by blast
    then show "((\<lambda>(m, blk). if m \<in> ?E \<and> faces_selected blk
                 then (m, blk\<lparr>normals_flipped := \<not> normals_flipped blk\<rparr>) else (m, blk)) \<circ>
            (\<lambda>(m, blk). if m \<in> ?E then (m, blk\<lparr>faces_selected := True\<rparr>) else (m, blk))) x
        = (case x of (i, b) \<Rightarrow> if i \<in> set (selected_mesh_keys s)
                    then (i, b\<lparr>faces_selected := True, normals_flipped := \<not> normals_flipped b\<rparr>)
                    else (i, b))"
      by (simp add: x)
  qed
  have ms: "mesh_flip_normals (mesh_select_all SELECT ?s6)
      = ?s6\<lparr>meshes := flip_selected (selected_mesh_keys s) (meshes s)
            @ [(?m, ?blk1\<lparr>faces_selected := True, normals_flipped := \<not> normals_flipped blk\<rparr>)]\<rparr>"
    unfolding fl map_append mm by simp
  show ?thesis
    unfolding add_outline_def c1 sum.case prod.case l1 option.case data_ref.case c2 Let_def s5 c6 ms
    by (simp add: mode_set_object_def make_material_closed transparent_default_def
         assign_material_def update_object_def set_name_def map_of_snoc_old [OF ob] Let_def
         outline_object_def outline_mesh_def made_material_def object_names_def
         del: map_of_append)
qed

section \<open>Adding objects\<close>

lemma fresh_same_keys: "map fst st' = map fst st \<Longrightarrow> fresh st' = fresh st"
  by (simp add: fresh_def)

lemma fresh_map_values [simp]: "fresh (map (\<lambda>(i, x). (i, f x)) st) = fresh st"
  by (rule fresh_same_keys) (induction st, auto)

lemma objects_deselect:
  "objects (object_select_all DESELECT s) = map (\<lambda>(i, ob). (i, ob\<lparr>selected := False\<rparr>)) (objects s)"
  by (simp add: object_select_all_def)

lemma name_after_select [simp]:
  "(\<lambda>(i, ob). name ob) \<circ> (\<lambda>(i, ob). (i, ob\<lparr>selected := b\<rparr>)) = (\<lambda>(i, ob). name ob)"
  by (auto simp: fun_eq_iff)

lemma names_deselect:
  "map (\<lambda>(i, ob). name ob) (map (\<lambda>(i, ob). (i, ob\<lparr>selected := b\<rparr>)) st) = map (\<lambda>(i, ob). name ob) st"
  by simp

lemma add_object_closed:
  "add_object nm d loc eul s =
     (fresh (objects s),
      s\<lparr>objects := deselected (objects s) @
           [(fresh (objects s),
             \<lparr> name = unique_name (object_names s) nm, data = d, location = loc,
               rotation = euler_to_mat eul, scale = (1, 1, 1), parent = None,
               selected = True, props = [], show_in_front = False,
               display_type = ''TEXTURED'' \<rparr>)],
         active_object := Some (fresh (objects s))\<rparr>)"
  by (simp add: add_object_def object_select_all_def Let_def object_names_def deselected_def)

lemma keys_deselected [simp]: "map fst (deselected st) = map fst st"
  by (induction st) (auto simp: deselected_def)

lemma fresh_deselected [simp]: "fresh (deselected st) = fresh st"
  by (rule fresh_same_keys) simp

lemma names_deselected [simp]: "map (\<lambda>(i, ob). name ob) (deselected st) = map (\<lambda>(i, ob). name ob) st"
  by (simp add: deselected_def)

lemma modify_deselected_fresh [simp]:
  "modify (fresh st) f (deselected st @ [(fresh st, v)]) = deselected st @ [(fresh st, f v)]"
  using fresh_notin_keys [of st] by (intro modify_snoc_new) simp

lemma map_of_deselected_fresh [simp]:
  "map_of (deselected st @ [(fresh st, v)]) (fresh st) = Some v"
  using map_of_snoc_fresh [of "deselected st" v] by (simp del: map_of_append map_of_snoc_fresh)

lemma filter_deselected_not_fresh [simp]:
  "filter (\<lambda>(i, x). i \<noteq> fresh st) (deselected st) = deselected st"
  using filter_not_fresh [of "deselected st"] by simp

lemma rot_zero [simp]: "rot ax 0 v = v"
  by (cases v; cases ax) simp_all

lemma rot_mat_zero [simp]: "rot_mat ax 0 m = m"
  by (cases m) simp

lemma euler_zero [simp]: "euler_to_mat (0, 0, 0) = identity_mat"
  by simp

lemma make_sphere_closed:
  "make_sphere s =
     Inr (fresh (objects s),
          s\<lparr>objects := deselected (objects s) @ [(fresh (objects s), sphere_object s)],
            meshes := meshes s @ [(fresh (meshes s), sphere_mesh s)],
            materials := materials s @ [(fresh (materials s),
                            made_material ''sphere_transparent'' (1, 1, 1, OPACITY) True s)],
            active_object := Some (fresh (objects s))\<rparr>)"
  by (simp add: make_sphere_def primitive_uv_sphere_add_def meshes_new_def add_object_closed
        make_material_closed set_name_def set_prop_def assign_material_def Let_def
        sphere_object_def sphere_mesh_def made_material_def object_names_def
      del: map_of_append euler_to_mat.simps)

section \<open>Hoops\<close>

lemma add_hoop_closed:
  "add_hoop radius thickness ax s =
     Inr (fresh (objects s),
          s\<lparr>objects := deselected (objects s) @ [(fresh (objects s), hoop_object s ax)],
            meshes := meshes s @ [(fresh (meshes s), hoop_mesh s radius thickness)],
            materials := materials s @ [(fresh (materials s),
                            made_material ''hoop_black'' (0, 0, 0, 1) True s)],
            active_object := Some (fresh (objects s))\<rparr>)"
  by (simp add: add_hoop_def primitive_torus_add_def meshes_new_def add_object_closed
        make_material_closed set_name_def set_prop_def assign_material_def update_object_def Let_def
        hoop_object_def hoop_mesh_def made_material_def object_names_def transparent_default_def
      del: map_of_append euler_to_mat.simps)

lemma radians_90: "radians 90 = pi / 2"
  by (simp add: radians_def)

text \<open>
  C6. \<^verbatim>\<open>add_hoop\<close> always returns, and the object it returns carries a torus with the
  given radius as major and the given thickness as minor radius. For axis \<^verbatim>\<open>Z\<close> the hoop
  is not rotated; for \<^verbatim>\<open>X\<close> it is turned once by \<open>\<pi>/2\<close> about Y and for \<^verbatim>\<open>Y\<close> once by
  \<open>\<pi>/2\<close> about X. The axis of the torus, which the host creates along Z, then lies along
  the named axis, so the plane of the hoop is perpendicular to it.
\<close>

theorem add_hoop_torus:
  "returned (\<lambda>s' k. map_option geometry (object_mesh s' k)) (add_hoop radius thickness ax s)
     = Some (Torus radius thickness 96 16)
   \<and> returned (\<lambda>s' k. map_option rotation (map_of (objects s') k)) (add_hoop radius thickness ''Z'' s)
     = Some identity_mat
   \<and> returned (\<lambda>s' k. map_option rotation (map_of (objects s') k)) (add_hoop radius thickness ''X'' s)
     = Some (rot_mat AxisY (pi / 2) identity_mat)
   \<and> returned (\<lambda>s' k. map_option rotation (map_of (objects s') k)) (add_hoop radius thickness ''Y'' s)
     = Some (rot_mat AxisX (pi / 2) identity_mat)
   \<and> returned (\<lambda>s' k. map_option torus_axis (map_of (objects s') k)) (add_hoop radius thickness ''Z'' s)
     = Some (0, 0, 1)
   \<and> returned (\<lambda>s' k. map_option torus_axis (map_of (objects s') k)) (add_hoop radius thickness ''X'' s)
     = Some (1, 0, 0)
   \<and> returned (\<lambda>s' k. map_option torus_axis (map_of (objects s') k)) (add_hoop radius thickness ''Y'' s)
     = Some (0, - 1, 0)"
  by (simp add: add_hoop_closed object_mesh_def hoop_object_def hoop_mesh_def torus_axis_def
       identity_mat_def radians_90 del: map_of_append)

section \<open>The scene of the sphere\<close>

declare map_of_append [simp del]

lemma fresh_Nil [simp]: "fresh [] = Suc 0"
  by (simp add: fresh_def)

lemma unique_name_free: "nm \<notin> set taken \<Longrightarrow> unique_name taken nm = nm"
  by (simp add: unique_name_def)

lemma deselected_Nil [simp]: "deselected [] = []"
  by (simp add: deselected_def)

lemma sphere_made: "make_sphere (delete_all empty_scene) =
  Inr (Suc 0,
       empty_scene\<lparr>objects := [(Suc 0, sphere_object empty_scene)],
                   meshes := [(Suc 0, sphere_mesh empty_scene)],
                   materials := [(Suc 0, made_material ''sphere_transparent'' (1, 1, 1, OPACITY) True empty_scene)],
                   active_object := Some (Suc 0)\<rparr>)"
  by (simp add: delete_all_empty_scene make_sphere_closed) (simp add: empty_scene_def)

lemma sphere_key_eq: "sphere_key = Suc 0"
  by (simp add: sphere_key_def sphere_made)

lemma sphere_scene_eq: "sphere_scene =
       empty_scene\<lparr>objects := [(Suc 0, sphere_object empty_scene)],
                   meshes := [(Suc 0, sphere_mesh empty_scene)],
                   materials := [(Suc 0, made_material ''sphere_transparent'' (1, 1, 1, OPACITY) True empty_scene)],
                   active_object := Some (Suc 0)\<rparr>"
  by (simp add: sphere_scene_def sphere_made)

lemma sphere_scene_object: "map_of (objects sphere_scene) sphere_key = Some (sphere_object empty_scene)"
  by (simp add: sphere_scene_eq sphere_key_eq)

lemma sphere_object_data: "data (sphere_object empty_scene) = MeshData (Suc 0)"
  by (simp add: sphere_object_def empty_scene_def)

lemma sphere_scene_mesh: "map_of (meshes sphere_scene) (Suc 0) = Some (sphere_mesh empty_scene)"
  by (simp add: sphere_scene_eq)

lemma returned_map_option:
  "returned (\<lambda>s k. map_option g (f s k)) r = map_option g (returned f r)"
  by (cases r) auto

lemma returned_outline_object:
  assumes "map_of (objects s) obj = Some ob" and "data ob = MeshData m"
    and "map_of (meshes s) m = Some blk"
  shows "returned (\<lambda>s' k. map_of (objects s') k) (add_outline obj t s) = Some (outline_object s ob t)"
  by (simp add: add_outline_closed [OF assms])

text \<open>
  C7. For a source that is a mesh object, \<^verbatim>\<open>add_outline\<close> returns an outline whose scale
  is \<open>1 + thickness\<close> on each of the three axes; with \<open>OUTLINE_THICKNESS\<close>, which is
  0.04, that is 1.04 on each axis.
\<close>

theorem add_outline_scale:
  assumes "map_of (objects s) obj = Some ob" and "data ob = MeshData m"
    and "map_of (meshes s) m = Some blk"
  shows "returned (\<lambda>s' k. map_option scale (map_of (objects s') k)) (add_outline obj t s)
           = Some (1 + t, 1 + t, 1 + t)
       \<and> returned (\<lambda>s' k. map_option scale (map_of (objects s') k))
            (add_outline obj OUTLINE_THICKNESS s)
           = Some (1.04, 1.04, 1.04)"
proof -
  have sc: "returned (\<lambda>s' k. map_option scale (map_of (objects s') k)) (add_outline obj u s)
      = Some (1 + u, 1 + u, 1 + u)" for u
    by (simp add: returned_map_option returned_outline_object [OF assms] outline_object_def)
  have "1 + OUTLINE_THICKNESS = 1.04"
    by (simp add: OUTLINE_THICKNESS_def)
  with sc [of t] sc [of OUTLINE_THICKNESS] show ?thesis
    by simp
qed

text \<open>The sphere of the script, of radius 1, is such a source.\<close>

theorem add_outline_scale_witness:
  "map_of (objects sphere_scene) sphere_key = Some (sphere_object empty_scene)
   \<and> data (sphere_object empty_scene) = MeshData 1
   \<and> map_of (meshes sphere_scene) 1 = Some (sphere_mesh empty_scene)
   \<and> geometry (sphere_mesh empty_scene) = UVSphere 1 64 64
   \<and> returned (\<lambda>s' k. map_option scale (map_of (objects s') k))
        (add_outline sphere_key OUTLINE_THICKNESS sphere_scene)
      = Some (1.04, 1.04, 1.04)"
proof -
  have h1: "map_of (objects sphere_scene) sphere_key = Some (sphere_object empty_scene)"
    by (rule sphere_scene_object)
  have h2: "data (sphere_object empty_scene) = MeshData 1"
    by (simp add: sphere_object_data)
  have h3: "map_of (meshes sphere_scene) 1 = Some (sphere_mesh empty_scene)"
    by (simp add: sphere_scene_mesh)
  have g: "geometry (sphere_mesh empty_scene) = UVSphere 1 64 64"
    by (simp add: sphere_mesh_def SPHERE_RADIUS_def SPHERE_SEGMENTS_def)
  from add_outline_scale [OF h1 h2 h3]
  have "returned (\<lambda>s' k. map_option scale (map_of (objects s') k))
        (add_outline sphere_key OUTLINE_THICKNESS sphere_scene) = Some (1.04, 1.04, 1.04)"
    by (rule conjunct2)
  with h1 h2 h3 g show ?thesis by (intro conjI)
qed

section \<open>Materials, normals and the light\<close>

lemma map_of_snoc_new: "map_of st k = None \<Longrightarrow> map_of (st @ [(k, v)]) k = Some v"
  by (simp add: map_of_snoc)

lemma map_of_flip_selected:
  "map_of (flip_selected ms st) k =
     (if k \<in> set ms
      then map_option (\<lambda>b. b\<lparr>faces_selected := True, normals_flipped := \<not> normals_flipped b\<rparr>) (map_of st k)
      else map_of st k)"
  by (induction st) (auto simp: flip_selected_def)

lemma map_of_flip_fresh [simp]:
  "map_of (flip_selected ms st @ [(fresh st, v)]) (fresh st) = Some v"
  by (rule map_of_snoc_new) (simp add: map_of_flip_selected)

lemma first_slot:
  "(case (if xs \<noteq> [] then xs[0 := v] else xs @ [v]) of [] \<Rightarrow> None | a # _ \<Rightarrow> f a) = f v"
  by (cases xs) simp_all

lemma slot0_outline:
  assumes "map_of (objects s) obj = Some ob" and "data ob = MeshData m"
    and "map_of (meshes s) m = Some blk"
  shows "returned slot0_material (add_outline obj t s)
           = Some (made_material ''outline_black'' (0, 0, 0, 1) True s)"
  by (simp add: add_outline_closed [OF assms] slot0_material_def object_mesh_def
        outline_object_def outline_mesh_def first_slot)

lemma slot0_hoop:
  "returned slot0_material (add_hoop radius thickness ax s)
           = Some (made_material ''hoop_black'' (0, 0, 0, 1) True s)"
  by (simp add: add_hoop_closed slot0_material_def object_mesh_def hoop_object_def hoop_mesh_def)

lemma slot0_sphere:
  "returned slot0_material (make_sphere s)
           = Some (made_material ''sphere_transparent'' (1, 1, 1, OPACITY) True s)"
  by (simp add: make_sphere_closed slot0_material_def object_mesh_def sphere_object_def sphere_mesh_def)

text \<open>
  C4, amended. The material that \<^verbatim>\<open>add_outline\<close> and \<^verbatim>\<open>add_hoop\<close> put in the first slot
  is black with alpha 1 and, like the sphere's, alpha-blended with back faces shown:
  both call \<^verbatim>\<open>make_material\<close> without its third argument, whose default is \<^verbatim>\<open>True\<close>. The
  sphere's material differs by its colour and alpha, white with alpha \<open>OPACITY\<close>.
\<close>

theorem black_materials_blended:
  assumes "map_of (objects s) obj = Some ob" and "data ob = MeshData m"
    and "map_of (meshes s) m = Some blk"
  shows "returned (\<lambda>s' k. map_option appearance (slot0_material s' k)) (add_outline obj t s)
           = Some ((0, 0, 0, 1), 1, BLEND, True)
       \<and> returned (\<lambda>s' k. map_option appearance (slot0_material s' k))
            (add_hoop radius thickness ax s2)
           = Some ((0, 0, 0, 1), 1, BLEND, True)
       \<and> returned (\<lambda>s' k. map_option appearance (slot0_material s' k)) (make_sphere s3)
           = Some ((1, 1, 1, OPACITY), OPACITY, BLEND, True)"
  by (simp add: returned_map_option slot0_outline [OF assms] slot0_hoop slot0_sphere
        made_material_def appearance_def)

text \<open>The sphere of the script is a source that \<^verbatim>\<open>add_outline\<close> accepts.\<close>

theorem black_materials_blended_witness:
  "map_of (objects sphere_scene) sphere_key = Some (sphere_object empty_scene)
   \<and> data (sphere_object empty_scene) = MeshData 1
   \<and> map_of (meshes sphere_scene) 1 = Some (sphere_mesh empty_scene)
   \<and> returned (\<lambda>s' k. map_option appearance (slot0_material s' k))
        (add_outline sphere_key OUTLINE_THICKNESS sphere_scene)
      = Some ((0, 0, 0, 1), 1, BLEND, True)"
proof -
  have h1: "map_of (objects sphere_scene) sphere_key = Some (sphere_object empty_scene)"
    by (rule sphere_scene_object)
  have h2: "data (sphere_object empty_scene) = MeshData 1"
    by (simp add: sphere_object_data)
  have h3: "map_of (meshes sphere_scene) 1 = Some (sphere_mesh empty_scene)"
    by (simp add: sphere_scene_mesh)
  from black_materials_blended [OF h1 h2 h3]
  have "returned (\<lambda>s' k. map_option appearance (slot0_material s' k))
        (add_outline sphere_key OUTLINE_THICKNESS sphere_scene)
      = Some ((0, 0, 0, 1), 1, BLEND, True)"
    by (rule conjunct1)
  with h1 h2 h3 show ?thesis by (intro conjI)
qed

text \<open>
  C4 as stated, with an opaque blend mode for outline and hoops, fails in the scene in
  which the script calls \<^verbatim>\<open>add_outline\<close> and \<^verbatim>\<open>add_hoop\<close>: the blend mode is \<open>BLEND\<close>.
\<close>

theorem outline_material_not_opaque:
  "returned (\<lambda>s' k. map_option blend_method (slot0_material s' k))
     (add_outline sphere_key OUTLINE_THICKNESS sphere_scene) = Some BLEND
   \<and> returned (\<lambda>s' k. map_option blend_method (slot0_material s' k))
     (add_hoop SPHERE_RADIUS HOOP_THICKNESS ''Z'' sphere_scene) = Some BLEND
   \<and> BLEND \<noteq> OPAQUE"
proof -
  have h1: "map_of (objects sphere_scene) sphere_key = Some (sphere_object empty_scene)"
    by (rule sphere_scene_object)
  have h2: "data (sphere_object empty_scene) = MeshData 1"
    by (simp add: sphere_object_data)
  have h3: "map_of (meshes sphere_scene) 1 = Some (sphere_mesh empty_scene)"
    by (simp add: sphere_scene_mesh)
  show ?thesis
    by (simp add: returned_map_option slot0_outline [OF h1 h2 h3] slot0_hoop made_material_def)
qed

lemma source_mesh_after_outline:
  assumes ob: "map_of (objects s) obj = Some ob" and d: "data ob = MeshData m"
    and b: "map_of (meshes s) m = Some blk"
  shows "returned (\<lambda>s' k. object_mesh s' obj) (add_outline obj t s) =
     Some (if m \<in> set (selected_mesh_keys s)
           then blk\<lparr>faces_selected := True, normals_flipped := \<not> normals_flipped blk\<rparr>
           else blk)"
proof -
  have "obj \<noteq> fresh (objects s)" using ob by (rule map_of_Some_not_fresh)
  moreover have "m \<noteq> fresh (meshes s)" using b by (rule map_of_Some_not_fresh)
  ultimately show ?thesis
    by (simp add: add_outline_closed [OF assms] object_mesh_def map_of_snoc ob d b
          map_of_flip_selected)
qed

lemma selected_source_in_edit:
  assumes ob: "map_of (objects s) obj = Some ob" and d: "data ob = MeshData m"
    and sel: "selected ob"
  shows "m \<in> set (selected_mesh_keys s)"
proof -
  have "(obj, ob) \<in> set (objects s)" using ob by (rule map_of_SomeD)
  moreover have "type_of ob = MESH" using d by (simp add: type_of_def)
  moreover have "mesh_of s obj = [m]" by (simp add: mesh_of_def ob d)
  ultimately show ?thesis
    using sel by (force simp: selected_mesh_keys_def)
qed

text \<open>
  C10. In the scene in which the script calls \<^verbatim>\<open>add_outline\<close> the sphere is selected, as
  the operator that added it left it. It enters edit mode together with the outline, and
  the normals of its mesh, which were not flipped before the call, are flipped after it,
  as those of the outline are.
\<close>

theorem add_outline_flips_selected_source:
  "map_option normals_flipped (object_mesh sphere_scene sphere_key) = Some False
   \<and> returned (\<lambda>s' k. map_option normals_flipped (object_mesh s' sphere_key))
       (add_outline sphere_key OUTLINE_THICKNESS sphere_scene) = Some True
   \<and> returned (\<lambda>s' k. map_option normals_flipped (object_mesh s' k))
       (add_outline sphere_key OUTLINE_THICKNESS sphere_scene) = Some True"
proof -
  have h1: "map_of (objects sphere_scene) sphere_key = Some (sphere_object empty_scene)"
    by (rule sphere_scene_object)
  have h2: "data (sphere_object empty_scene) = MeshData 1"
    by (simp add: sphere_object_data)
  have h3: "map_of (meshes sphere_scene) 1 = Some (sphere_mesh empty_scene)"
    by (simp add: sphere_scene_mesh)
  have sel: "selected (sphere_object empty_scene)"
    by (simp add: sphere_object_def)
  have a: "map_option normals_flipped (object_mesh sphere_scene sphere_key) = Some False"
    by (simp add: object_mesh_def h1 h2 sphere_scene_mesh sphere_mesh_def)
  have b: "returned (\<lambda>s' k. map_option normals_flipped (object_mesh s' sphere_key))
       (add_outline sphere_key OUTLINE_THICKNESS sphere_scene) = Some True"
    using selected_source_in_edit [OF h1 h2 sel]
    by (simp add: returned_map_option source_mesh_after_outline [OF h1 h2 h3])
       (simp add: sphere_mesh_def)
  have c: "returned (\<lambda>s' k. map_option normals_flipped (object_mesh s' k))
       (add_outline sphere_key OUTLINE_THICKNESS sphere_scene) = Some True"
    by (simp add: add_outline_closed [OF h1 h2 h3] object_mesh_def outline_object_def
         outline_mesh_def) (simp add: sphere_mesh_def)
  from a b c show ?thesis by (intro conjI)
qed

lemma unselected_sources_kept:
  assumes "map_of (objects s) obj = Some ob" and "data ob = MeshData m"
    and "map_of (meshes s) m = Some blk" and "selected_mesh_keys s = []"
  shows "returned (\<lambda>s' k. object_mesh s' obj) (add_outline obj t s) = Some blk"
  using assms(4) by (simp add: source_mesh_after_outline [OF assms(1-3)])

lemma find_Some_mem: "find P xs = Some x \<Longrightarrow> x \<in> set xs"
  by (induction xs) (auto split: if_splits)

lemma unique_name_hd: "hd (unique_name taken (c # cs)) = c"
proof (cases "find (\<lambda>x. x \<notin> set taken) (map (\<lambda>k. (c # cs) @ ''.'' @ suffix3 k) [1..<length taken + 2])")
  case None
  then show ?thesis by (simp add: unique_name_def)
next
  case (Some x)
  then have "x \<in> set (map (\<lambda>k. (c # cs) @ ''.'' @ suffix3 k) [1..<length taken + 2])"
    by (rule find_Some_mem)
  then obtain k where "x = (c # cs) @ ''.'' @ suffix3 k" by auto
  then have "hd x = c" by simp
  with Some show ?thesis by (simp add: unique_name_def)
qed

lemma area_is_not_light: "unique_name taken ''Area'' \<noteq> ''Light''"
proof
  assume "unique_name taken ''Area'' = ''Light''"
  then have "hd (unique_name taken ''Area'') = CHR ''L''" by simp
  then show False by (simp add: unique_name_hd)
qed

lemma objects_by_name_absent:
  "nm \<notin> set (object_names s) \<Longrightarrow> objects_by_name nm s = Inl (KeyError nm)"
proof -
  assume "nm \<notin> set (object_names s)"
  then have "find (\<lambda>(i, ob). name ob = nm) (objects s) = None"
    by (auto simp: find_None_iff object_names_def)
  then show ?thesis by (simp add: objects_by_name_def)
qed

lemma objects_by_name_present:
  "nm \<in> set (object_names s) \<Longrightarrow> \<exists>k. objects_by_name nm s = Inr k"
proof -
  assume "nm \<in> set (object_names s)"
  then have "find (\<lambda>(i, ob). name ob = nm) (objects s) \<noteq> None"
    by (auto simp: find_None_iff object_names_def)
  then show ?thesis by (auto simp: objects_by_name_def split: option.splits)
qed

lemma names_add_object:
  "object_names (snd (add_object nm d loc eul s)) = object_names s @ [unique_name (object_names s) nm]"
  by (simp add: add_object_closed object_names_def)

lemma names_camera_add:
  "object_names (snd (camera_add h loc eul s)) = object_names s @ [unique_name (object_names s) (camera_defname h)]"
proof -
  have "object_names (s\<lparr>cameras := c\<rparr>) = object_names s" for c
    by (simp add: object_names_def)
  then show ?thesis by (simp add: camera_add_def Let_def names_add_object)
qed

lemma names_light_add_area:
  "object_names (snd (light_add_area h loc s)) = object_names s @ [unique_name (object_names s) (area_light_defname h)]"
proof -
  have "object_names (s\<lparr>lights := c\<rparr>) = object_names s" for c
    by (simp add: object_names_def)
  then show ?thesis by (simp add: light_add_area_def Let_def names_add_object)
qed

lemma add_camera_light_without_light:
  assumes "''Light'' \<notin> set (object_names s)"
  shows "add_camera_light blender s = Inl (KeyError ''Light'')"
proof -
  let ?s1 = "if ''Camera'' \<notin> set (object_names s)
             then snd (camera_add blender (0, -4, 0) (radians 90, 0, 0) s) else s"
  have n1: "''Camera'' \<in> set (object_names ?s1)"
    by (simp add: names_camera_add blender_def unique_name_free)
  then obtain cam where cam: "objects_by_name ''Camera'' ?s1 = Inr cam"
    using objects_by_name_present by blast
  have l1: "''Light'' \<notin> set (object_names ?s1)"
    using assms by (simp add: names_camera_add blender_def unique_name_free)
  let ?s2 = "?s1\<lparr>scene_camera := Some cam\<rparr>"
  have n2: "object_names ?s2 = object_names ?s1"
    by (simp add: object_names_def)
  let ?s3 = "snd (light_add_area blender (0, -3, 3) ?s2)"
  have a: "area_light_defname blender = ''Area''"
    by (simp add: blender_def)
  have "object_names ?s3 = object_names ?s1 @ [unique_name (object_names ?s1) ''Area'']"
    unfolding names_light_add_area n2 a ..
  with l1 have l3: "''Light'' \<notin> set (object_names ?s3)"
    using area_is_not_light [of "object_names ?s1"] by (simp del: set_append) auto
  have "''Light'' \<notin> set (object_names ?s2)"
    using l1 unfolding n2 .
  then have i3: "(if ''Light'' \<notin> set (object_names ?s2) then ?s3 else ?s2) = ?s3"
    by (rule if_P)
  show ?thesis
    unfolding add_camera_light_def Let_def cam sum.case i3 objects_by_name_absent [OF l3] ..
qed

lemma add_camera_light_reuses:
  assumes cam: "objects_by_name ''Camera'' s = Inr cam"
    and light: "objects_by_name ''Light'' s = Inr light"
    and ob: "map_of (objects s) light = Some ob" and d: "data ob = LightData l"
  shows "add_camera_light h s =
     Inr ((cam, light),
          s\<lparr>scene_camera := Some cam,
            lights := modify l (\<lambda>d. d\<lparr>energy := 500\<rparr>) (lights s)\<rparr>)"
proof -
  have c: "''Camera'' \<in> set (object_names s)"
    using cam objects_by_name_absent [of "''Camera''" s] by auto
  have li: "''Light'' \<in> set (object_names s)"
    using light objects_by_name_absent [of "''Light''" s] by auto
  have n: "object_names (s\<lparr>scene_camera := x\<rparr>) = object_names s" for x
    by (simp add: object_names_def)
  have l2: "objects_by_name ''Light'' (s\<lparr>scene_camera := Some cam\<rparr>) = Inr light"
    using light by (simp add: objects_by_name_def)
  have e: "set_energy light 500 (s\<lparr>scene_camera := Some cam\<rparr>)
      = Inr (s\<lparr>scene_camera := Some cam, lights := modify l (\<lambda>d. d\<lparr>energy := 500\<rparr>) (lights s)\<rparr>)"
    by (simp add: set_energy_def ob d)
  show ?thesis
    by (simp add: add_camera_light_def Let_def c cam n li l2 e)
qed

text \<open>
  C9. In a scene with no object named \<^verbatim>\<open>Light\<close>, such as the empty scene, the new area
  light is named \<^verbatim>\<open>Area\<close> by the host, and the lookup of \<^verbatim>\<open>Light\<close> that follows raises
  \<^verbatim>\<open>KeyError\<close>: the function does not return.
\<close>

theorem add_camera_light_key_error:
  "add_camera_light blender empty_scene = Inl (KeyError ''Light'')"
  by (simp add: add_camera_light_def blender_def empty_scene_def camera_add_def
        light_add_area_def add_object_def object_select_all_def objects_by_name_def
        object_names_def unique_name_def Let_def)

section \<open>Binding materials; the label file\<close>

lemma assign_material_closed:
  assumes "map_of (objects s) k = Some ob" and "data ob = MeshData m"
  shows "assign_material k mat s =
     Inr (s\<lparr>meshes := modify m
            (\<lambda>blk. blk\<lparr>mesh_materials :=
                (if mesh_materials blk \<noteq> [] then (mesh_materials blk)[0 := mat]
                 else mesh_materials blk @ [mat])\<rparr>) (meshes s)\<rparr>)"
  by (simp add: assign_material_def assms)

text \<open>
  C5, amended. \<^verbatim>\<open>make_material\<close> creates the material with the given colour, alpha and
  blend mode and returns it; it changes no object and no mesh. Binding the material into
  the first slot of the mesh of an object, replacing what is there or appending to an
  empty slot list, is what the four lines after the call do, in every caller.
\<close>

theorem make_material_only_creates:
  assumes "map_of (objects s) k = Some ob" and "data ob = MeshData m"
    and "map_of (meshes s) m = Some blk"
  shows "fst (make_material nm col tr s) = fresh (materials s)
       \<and> meshes (snd (make_material nm col tr s)) = meshes s
       \<and> objects (snd (make_material nm col tr s)) = objects s
       \<and> map_option appearance
            (map_of (materials (snd (make_material nm col tr s))) (fresh (materials s)))
           = Some (col, snd (snd (snd col)), (if tr then BLEND else OPAQUE), True)
       \<and> (case make_material nm col tr s of
             (mat, s1) \<Rightarrow>
               (case assign_material k mat s1 of
                  Inl e \<Rightarrow> None
                | Inr s2 \<Rightarrow> map_option mesh_materials (object_mesh s2 k)))
           = Some (if mesh_materials blk \<noteq> []
                   then (mesh_materials blk)[0 := fresh (materials s)]
                   else [fresh (materials s)])"
  by (simp add: make_material_closed assign_material_closed [of _ k ob m] assms
        object_mesh_def map_of_modify made_material_def appearance_def)

lemma sphere_scene_materials: "fresh (materials sphere_scene) = 2"
  by (simp add: sphere_scene_eq fresh_def)

text \<open>The sphere of the script, whose first slot holds material 1, gets material 2.\<close>

theorem make_material_only_creates_witness:
  "map_of (objects sphere_scene) sphere_key = Some (sphere_object empty_scene)
   \<and> data (sphere_object empty_scene) = MeshData 1
   \<and> map_of (meshes sphere_scene) 1 = Some (sphere_mesh empty_scene)
   \<and> mesh_materials (sphere_mesh empty_scene) = [1]
   \<and> (case make_material ''outline_black'' (0, 0, 0, 1) True sphere_scene of
         (mat, s1) \<Rightarrow>
           (case assign_material sphere_key mat s1 of
              Inl e \<Rightarrow> None
            | Inr s2 \<Rightarrow> map_option mesh_materials (object_mesh s2 sphere_key)))
       = Some [2]"
proof -
  have h1: "map_of (objects sphere_scene) sphere_key = Some (sphere_object empty_scene)"
    by (rule sphere_scene_object)
  have h2: "data (sphere_object empty_scene) = MeshData 1"
    by (simp add: sphere_object_data)
  have h3: "map_of (meshes sphere_scene) 1 = Some (sphere_mesh empty_scene)"
    by (simp add: sphere_scene_mesh)
  have sl: "mesh_materials (sphere_mesh empty_scene) = [1]"
    by (simp add: sphere_mesh_def empty_scene_def)
  from make_material_only_creates [OF h1 h2 h3, of "''outline_black''" "(0, 0, 0, 1)" True]
  have "(case make_material ''outline_black'' (0, 0, 0, 1) True sphere_scene of
         (mat, s1) \<Rightarrow>
           (case assign_material sphere_key mat s1 of
              Inl e \<Rightarrow> None
            | Inr s2 \<Rightarrow> map_option mesh_materials (object_mesh s2 sphere_key)))
       = Some [2]"
    by (simp add: sl sphere_scene_materials)
  with h1 h2 h3 sl show ?thesis by (intro conjI)
qed

text \<open>
  C5 as stated fails in the scene of the sphere: \<^verbatim>\<open>make_material\<close> returns material 2
  and the first slot of the sphere's mesh still holds material 1.
\<close>

theorem make_material_binds_nothing:
  "fst (make_material ''outline_black'' (0, 0, 0, 1) True sphere_scene) = 2
   \<and> map_option mesh_materials (object_mesh sphere_scene sphere_key) = Some [1]
   \<and> map_option mesh_materials
        (object_mesh (snd (make_material ''outline_black'' (0, 0, 0, 1) True sphere_scene)) sphere_key)
       = Some [1]"
proof -
  have sl: "mesh_materials (sphere_mesh empty_scene) = [1]"
    by (simp add: sphere_mesh_def empty_scene_def)
  show ?thesis
    by (simp add: make_material_closed sphere_scene_materials object_mesh_def
          sphere_scene_object sphere_object_data sphere_scene_mesh sl)
qed

lemma files_write_labels:
  "map_of (files (write_labels export_path s)) = (map_of (files s))(labels_path export_path \<mapsto> labels_text)"
  by (simp add: write_labels_def file_open_w_def file_write_def Let_def update_conv' labels_text_def)

lemma labels_lines:
  "text_lines labels_text =
     [''object,shape_tag'', ''core_sphere,sphere_core'', ''core_sphere_outline,sphere_outline'',
      ''hoop_Z,hoop_Z'', ''hoop_X,hoop_X'']"
  by (simp add: text_lines_def labels_text_def newline_def)

lemma labels_rows:
  "csv_rows labels_text =
     [[''core_sphere'', ''sphere_core''], [''core_sphere_outline'', ''sphere_outline''],
      [''hoop_Z'', ''hoop_Z''], [''hoop_X'', ''hoop_X'']]"
  by (simp add: csv_rows_def labels_lines)

text \<open>
  C2. The label block writes the file \<^verbatim>\<open>core_sphere_labels.csv\<close> of the export
  directory. Its text is the header line \<^verbatim>\<open>object,shape_tag\<close> and four data lines, in
  the order \<^verbatim>\<open>core_sphere\<close>, \<^verbatim>\<open>core_sphere_outline\<close>, \<^verbatim>\<open>hoop_Z\<close>, \<^verbatim>\<open>hoop_X\<close>, each with
  its tag.
\<close>

theorem label_file_content:
  "map_of (files (write_labels export_path s)) (path_join export_path ''core_sphere_labels.csv'')
     = Some (''object,shape_tag'' @ newline @ ''core_sphere,sphere_core'' @ newline
             @ ''core_sphere_outline,sphere_outline'' @ newline @ ''hoop_Z,hoop_Z'' @ newline
             @ ''hoop_X,hoop_X'' @ newline)
   \<and> map_option text_lines
        (map_of (files (write_labels export_path s)) (path_join export_path ''core_sphere_labels.csv''))
     = Some [''object,shape_tag'', ''core_sphere,sphere_core'',
             ''core_sphere_outline,sphere_outline'', ''hoop_Z,hoop_Z'', ''hoop_X,hoop_X'']
   \<and> map_option csv_rows
        (map_of (files (write_labels export_path s)) (path_join export_path ''core_sphere_labels.csv''))
     = Some [[''core_sphere'', ''sphere_core''], [''core_sphere_outline'', ''sphere_outline''],
             [''hoop_Z'', ''hoop_Z''], [''hoop_X'', ''hoop_X'']]
   \<and> map_option (\<lambda>txt. length (csv_rows txt))
        (map_of (files (write_labels export_path s)) (path_join export_path ''core_sphere_labels.csv''))
     = Some 4
   \<and> path_join (dir @ ''/'') ''core_sphere_labels.csv'' = dir @ ''/core_sphere_labels.csv''"
proof -
  have f: "map_of (files (write_labels export_path s))
             (path_join export_path ''core_sphere_labels.csv'') = Some labels_text"
    by (simp add: files_write_labels labels_path_def)
  have p: "path_join (dir @ ''/'') ''core_sphere_labels.csv'' = dir @ ''/core_sphere_labels.csv''"
    by (simp add: path_join_def)
  show ?thesis
    unfolding f option.map labels_lines labels_rows
    by (simp add: labels_text_def p)
qed

section \<open>Rotations\<close>

lemma rot_inverse: "rot ax (- a) (rot ax a v) = v"
proof -
  have one: "cos a * cos a + sin a * sin a = 1"
    using sin_cos_squared_add2 [of a] by (simp add: power2_eq_square)
  have sq: "u * (cos a * cos a) + u * (sin a * sin a) = u" for u :: real
    using one by (simp add: distrib_left [symmetric])
  obtain x y z where v: "v = (x, y, z)" by (cases v)
  show ?thesis
    by (cases ax) (simp_all add: v algebra_simps sq)
qed

lemma rot_mat_inverse: "rot_mat ax (- a) (rot_mat ax a m) = m"
  by (cases m) (simp add: rot_inverse)

lemma vsub_vadd: "vsub (vadd p w) p = w"
  by (cases p; cases w) simp

lemma vadd_vsub: "vadd p (vsub v p) = v"
  by (cases p; cases v) simp

lemma rot_about_inverse: "rot_about p ax (- a) (rot_about p ax a v) = v"
  by (simp add: rot_about_def vsub_vadd rot_inverse vadd_vsub)

lemma rotate_obj_inverse: "rotate_obj p ax (- a) (rotate_obj p ax a ob) = ob"
  by (simp add: rotate_obj_def rot_about_inverse rot_mat_inverse)

lemma selected_rotate_obj [simp]: "selected (rotate_obj p ax a ob) = selected ob"
  by (simp add: rotate_obj_def)

lemma parent_rotate_obj [simp]: "parent (rotate_obj p ax a ob) = parent ob"
  by (simp add: rotate_obj_def)

lemma map_of_map_values:
  "map_of (map (\<lambda>(i, x). (i, f x)) st) k = map_option f (map_of st k)"
  by (induction st) auto

lemma selected_ancestor_cong:
  assumes "\<And>k. map_option selected (map_of st' k) = map_option selected (map_of st k)"
    and "\<And>k. map_option parent (map_of st' k) = map_option parent (map_of st k)"
  shows "selected_ancestor n st' p = selected_ancestor n st p"
proof (induction n arbitrary: p)
  case 0
  then show ?case by simp
next
  case (Suc n)
  show ?case
  proof (cases p)
    case None
    then show ?thesis by simp
  next
    case (Some k)
    show ?thesis
    proof (cases "map_of st k")
      case None
      with assms(1) [of k] have "map_of st' k = None" by simp
      with None Some show ?thesis by simp
    next
      case (Some po)
      with assms(1) [of k] obtain po' where po': "map_of st' k = Some po'" by auto
      from assms(1) [of k] assms(2) [of k] Some po'
      have "selected po' = selected po" and "parent po' = parent po" by auto
      with Some po' \<open>p = Some k\<close> Suc.IH show ?thesis by simp
    qed
  qed
qed

lemma transformed_rotate_objects:
  "transformed (rotate_objects p ax a st) ob = transformed st ob"
proof -
  let ?f = "\<lambda>ob. if transformed st ob then rotate_obj p ax a ob else ob"
  have e: "rotate_objects p ax a st = map (\<lambda>(i, x). (i, ?f x)) st"
    by (simp add: rotate_objects_def)
  have "selected_ancestor (length st) (rotate_objects p ax a st) q = selected_ancestor (length st) st q" for q
    by (rule selected_ancestor_cong) (auto simp: e map_of_map_values option.map_comp o_def intro!: option.map_cong)
  then show ?thesis
    by (simp add: transformed_def) (simp add: rotate_objects_def)
qed

lemma transformed_rotate_obj [simp]: "transformed st (rotate_obj p ax a ob) = transformed st ob"
  by (simp add: transformed_def)

lemma rotate_objects_inverse: "rotate_objects p ax (- a) (rotate_objects p ax a st) = st"
proof -
  have "rotate_objects p ax (- a) (rotate_objects p ax a st)
      = map (\<lambda>(i, ob). (i, if transformed st ob then rotate_obj p ax (- a) ob else ob))
          (rotate_objects p ax a st)"
    unfolding rotate_objects_def [of p ax "- a"] transformed_rotate_objects ..
  also have "\<dots> = map (\<lambda>x. x) st"
    unfolding rotate_objects_def map_map
    by (rule map_cong) (auto simp: rotate_obj_inverse)
  finally show ?thesis by simp
qed

lemma transform_rotate_inverse:
  "transform_rotate (- a) ax (transform_rotate a ax s) = s"
  by (simp add: transform_rotate_def rotate_objects_inverse)

section \<open>Rendering a view\<close>

lemma objects_transform_rotate [simp]:
  "objects (transform_rotate a ax s) = rotate_objects (pivot s) ax a (objects s)"
  by (simp add: transform_rotate_def)

lemma pivot_transform_rotate [simp]: "pivot (transform_rotate a ax s) = pivot s"
  by (simp add: transform_rotate_def)

lemma renders_transform_rotate [simp]: "renders (transform_rotate a ax s) = renders s"
  by (simp add: transform_rotate_def)

lemma select_non_cameras_fields:
  "pivot (select_non_cameras ks s) = pivot s \<and> renders (select_non_cameras ks s) = renders s"
  by (induction ks arbitrary: s) (simp_all add: update_object_def)

lemma objects_select_non_cameras:
  "objects (select_non_cameras ks s) =
     map (\<lambda>(i, ob). (i, if i \<in> set ks \<and> type_of ob \<noteq> CAMERA then ob\<lparr>selected := True\<rparr> else ob))
       (objects s)"
proof (induction ks arbitrary: s)
  case Nil
  then show ?case by (simp add: split_beta)
next
  case (Cons k ks)
  have t: "type_of (ob\<lparr>selected := b\<rparr>) = type_of ob" for ob :: obj and b
    by (simp add: type_of_def)
  show ?case
    unfolding select_non_cameras.simps Cons.IH
    by (simp add: update_object_def modify_def) (auto simp: t)
qed

lemma transforms_selection:
  assumes "objects s' = map (\<lambda>(i, ob). (i, ob\<lparr>selected := g i ob\<rparr>)) (objects s)"
  shows "transforms s' = transforms s"
  by (simp add: transforms_def assms split_beta)

lemma objects_render_selection:
  "objects (select_non_cameras (map fst (objects (object_select_all DESELECT s)))
              (object_select_all DESELECT s))
     = map (\<lambda>(i, ob). (i, ob\<lparr>selected := (type_of ob \<noteq> CAMERA)\<rparr>)) (objects s)"
proof -
  have t: "type_of (ob\<lparr>selected := b\<rparr>) = type_of ob" for ob :: obj and b
    by (simp add: type_of_def)
  have k: "set (map fst (objects (object_select_all DESELECT s))) = fst ` set (objects s)"
    by (force simp: object_select_all_def)
  have o: "objects (object_select_all DESELECT s)
      = map (\<lambda>(i, ob). (i, ob\<lparr>selected := False\<rparr>)) (objects s)"
    by (simp add: object_select_all_def)
  show ?thesis
    unfolding objects_select_non_cameras k o map_map
    by (rule map_cong) (force simp: t)+
qed

lemma non_cameras_selected_for_render:
  "non_cameras_selected (select_non_cameras (map fst (objects (object_select_all DESELECT s)))
              (object_select_all DESELECT s))"
proof -
  have t: "type_of (ob\<lparr>selected := b\<rparr>) = type_of ob" for ob :: obj and b
    by (simp add: type_of_def)
  show ?thesis
    by (simp add: non_cameras_selected_def objects_render_selection list_all_iff t split_beta)
qed

lemma objects_render_view:
  "objects (render_view export_path nm cam target (rx, ry, rz) s)
     = objects (select_non_cameras (map fst (objects (object_select_all DESELECT s)))
              (object_select_all DESELECT s))"
  by (simp add: render_view_def Let_def render_render_def rotate_objects_inverse)

lemma transforms_render_view:
  "transforms (render_view export_path nm cam target angles s) = transforms s"
proof -
  obtain rx ry rz where a: "angles = (rx, ry, rz)" by (cases angles)
  show ?thesis
    unfolding a
    by (rule transforms_selection [where g = "\<lambda>i ob. type_of ob \<noteq> CAMERA"])
       (simp add: objects_render_view objects_render_selection)
qed

lemma transforms_render_views:
  "transforms (render_views export_path cam target views s) = transforms s"
proof (induction views arbitrary: s)
  case Nil
  then show ?case by (simp add: render_views_def)
next
  case (Cons v views)
  obtain nm angles where v: "v = (nm, angles)" by (cases v)
  have "render_views export_path cam target (v # views) s
      = render_views export_path cam target views (render_view export_path nm cam target angles s)"
    by (simp add: render_views_def v)
  then show ?case by (simp add: Cons.IH transforms_render_view)
qed

text \<open>
  C1. \<^verbatim>\<open>render_view\<close> selects every object that is no camera and turns the selection
  about X by the first component of the rotation, then about Y by the second, then about
  Z by the third; it renders in that state; then it turns by the negated components
  about Z, Y and X. Over the reals the six turns cancel: location, orientation and scale
  of every object are afterwards what they were before, for every rotation, so for each
  of the four preset views and for the loop over all of them.
\<close>

theorem render_view_round_trip:
  "non_cameras_selected (select_non_cameras (map fst (objects (object_select_all DESELECT s)))
              (object_select_all DESELECT s))
   \<and> renders (render_view export_path nm cam target (rx, ry, rz) s)
       = renders s @
         [(path_join export_path (''sphere_'' @ nm @ ''.png''),
           objects (transform_rotate rz AxisZ (transform_rotate ry AxisY (transform_rotate rx AxisX
             (select_non_cameras (map fst (objects (object_select_all DESELECT s)))
                (object_select_all DESELECT s))))))]
   \<and> objects (render_view export_path nm cam target (rx, ry, rz) s)
       = objects (transform_rotate (- rx) AxisX (transform_rotate (- ry) AxisY
           (transform_rotate (- rz) AxisZ
             (transform_rotate rz AxisZ (transform_rotate ry AxisY (transform_rotate rx AxisX
               (select_non_cameras (map fst (objects (object_select_all DESELECT s)))
                  (object_select_all DESELECT s))))))))
   \<and> transforms (render_view export_path nm cam target (rx, ry, rz) s) = transforms s
   \<and> list_all (\<lambda>(view_name, rot). transforms (render_view export_path view_name cam target rot s)
                  = transforms s) RENDER_VIEWS
   \<and> transforms (render_views export_path cam target RENDER_VIEWS s) = transforms s"
proof -
  have r: "renders (render_view export_path nm cam target (rx, ry, rz) s)
       = renders s @
         [(path_join export_path (''sphere_'' @ nm @ ''.png''),
           objects (transform_rotate rz AxisZ (transform_rotate ry AxisY (transform_rotate rx AxisX
             (select_non_cameras (map fst (objects (object_select_all DESELECT s)))
                (object_select_all DESELECT s))))))]"
    by (simp add: render_view_def Let_def render_render_def select_non_cameras_fields
          object_select_all_def)
  have o: "objects (render_view export_path nm cam target (rx, ry, rz) s)
       = objects (transform_rotate (- rx) AxisX (transform_rotate (- ry) AxisY
           (transform_rotate (- rz) AxisZ
             (transform_rotate rz AxisZ (transform_rotate ry AxisY (transform_rotate rx AxisX
               (select_non_cameras (map fst (objects (object_select_all DESELECT s)))
                  (object_select_all DESELECT s))))))))"
    by (simp add: render_view_def Let_def render_render_def)
  have l: "list_all (\<lambda>(view_name, rot). transforms (render_view export_path view_name cam target rot s)
                  = transforms s) RENDER_VIEWS"
    by (simp add: list_all_iff transforms_render_view split_beta)
  from non_cameras_selected_for_render r o transforms_render_view l transforms_render_views
  show ?thesis by (intro conjI)
qed

section \<open>Names and tags through the script\<close>

lemma view_cong: "objects s' = objects s \<Longrightarrow> view s' = view s"
  by (simp add: view_def)

lemma keys_view: "map fst (view s) = map fst (objects s)"
  by (simp add: view_def split_beta)

lemma fresh_view: "fresh (objects s) = fresh (view s)"
  by (rule fresh_same_keys) (simp add: keys_view)

lemma names_view: "object_names s = map (\<lambda>(i, n, t, ty). n) (view s)"
  by (simp add: object_names_def view_def split_beta)

lemma map_of_view:
  "map_of (view s) k = map_option (\<lambda>ob. (name ob, shape_tag ob, type_of ob)) (map_of (objects s) k)"
  by (simp add: view_def map_of_map_values)

lemma object_label_view:
  "object_label s k =
     (case map_of (view s) k of
        None \<Rightarrow> []
      | Some (n, t, ty) \<Rightarrow> (case t of None \<Rightarrow> [n] | Some tag \<Rightarrow> [n, tag]))"
  by (simp add: object_label_def map_of_view split: option.splits)

lemma view_selection:
  assumes "objects s' = map (\<lambda>(i, ob). (i, ob\<lparr>selected := g i ob\<rparr>)) (objects s)"
  shows "view s' = view s"
  by (simp add: view_def assms split_beta shape_tag_def type_of_def)

lemma view_deselected_snoc:
  assumes "objects s' = deselected (objects s) @ [(k, ob)]"
  shows "view s' = view s @ [(k, name ob, shape_tag ob, type_of ob)]"
  by (simp add: view_def assms deselected_def split_beta shape_tag_def type_of_def)

lemma view_snoc:
  assumes "objects s' = objects s @ [(k, ob)]"
  shows "view s' = view s @ [(k, name ob, shape_tag ob, type_of ob)]"
  by (simp add: view_def assms)

lemma view_make_sphere:
  "\<exists>s'. make_sphere s = Inr (fresh (view s), s')
     \<and> view s' = view s @ [(fresh (view s),
           unique_name (map (\<lambda>(i, n, t, ty). n) (view s)) ''core_sphere'', Some ''sphere_core'', MESH)]
     \<and> map_of (objects s') (fresh (view s)) = Some (sphere_object s)
     \<and> meshes s' = meshes s @ [(fresh (meshes s), sphere_mesh s)]"
  by (simp add: make_sphere_closed fresh_view [symmetric] names_view [symmetric]
        view_deselected_snoc [where ob = "sphere_object s" and k = "fresh (objects s)"])
     (simp add: sphere_object_def shape_tag_def type_of_def)

lemma view_add_outline:
  assumes "map_of (objects s) obj = Some ob" and "data ob = MeshData m"
    and "map_of (meshes s) m = Some blk"
  shows "\<exists>s'. add_outline obj t s = Inr (fresh (view s), s')
     \<and> view s' = view s @ [(fresh (view s),
           unique_name (map (\<lambda>(i, n, t, ty). n) (view s)) (name ob @ ''_outline''), shape_tag ob, MESH)]"
  by (simp add: add_outline_closed [OF assms] fresh_view [symmetric] names_view [symmetric]
        view_snoc [where ob = "outline_object s ob t" and k = "fresh (objects s)"])
     (simp add: outline_object_def shape_tag_def type_of_def)

lemma view_add_hoop:
  "\<exists>s'. add_hoop radius thickness ax s = Inr (fresh (view s), s')
     \<and> view s' = view s @ [(fresh (view s),
           unique_name (map (\<lambda>(i, n, t, ty). n) (view s)) (''hoop_'' @ ax), Some (''hoop_'' @ ax), MESH)]"
  by (simp add: add_hoop_closed fresh_view [symmetric] names_view [symmetric]
        view_deselected_snoc [where ob = "hoop_object s ax" and k = "fresh (objects s)"])
     (simp add: hoop_object_def shape_tag_def type_of_def)

lemma view_set_prop:
  "view (set_prop k ''shape_tag'' v s)
     = map (\<lambda>(i, n, t, ty). if i = k then (i, n, Some v, ty) else (i, n, t, ty)) (view s)"
  by (simp add: view_def set_prop_def modify_def split_beta shape_tag_def type_of_def update_conv')

lemma view_update_parent [simp]:
  "view (update_object k (\<lambda>ob. ob\<lparr>parent := p\<rparr>) s) = view s"
  by (simp add: view_def update_object_def modify_def split_beta shape_tag_def type_of_def)

lemma fresh_single [simp]: "fresh [(k, v)] = Suc k"
  by (simp add: fresh_def)

lemma build_asset_view:
  "\<exists>s1. build_asset s0 = Inr ([1, 2, 3, 4], s1) \<and> view s1 = tracked_view"
proof -
  let ?s = "delete_all s0"
  have v0: "view ?s = []"
    by (simp add: view_def objects_delete_all)
  have n0: "object_names ?s = []"
    by (simp add: object_names_def objects_delete_all)
  from view_make_sphere [of ?s] obtain s1 where
    m1: "make_sphere ?s = Inr (1, s1)"
    and v1: "view s1 = [(1, ''core_sphere'', Some ''sphere_core'', MESH)]"
    and o1: "map_of (objects s1) 1 = Some (sphere_object ?s)"
    and b1: "meshes s1 = meshes ?s @ [(fresh (meshes ?s), sphere_mesh ?s)]"
    by (auto simp: v0 unique_name_free)
  have d1: "data (sphere_object ?s) = MeshData (fresh (meshes ?s))"
    by (simp add: sphere_object_def)
  have k1: "map_of (meshes s1) (fresh (meshes ?s)) = Some (sphere_mesh ?s)"
    by (simp add: b1)
  have nm1: "name (sphere_object ?s) = ''core_sphere''"
    by (simp add: sphere_object_def n0 unique_name_free)
  have tg1: "shape_tag (sphere_object ?s) = Some ''sphere_core''"
    by (simp add: sphere_object_def shape_tag_def)
  from view_add_outline [OF o1 d1 k1, of OUTLINE_THICKNESS] obtain s2 where
    m2: "add_outline 1 OUTLINE_THICKNESS s1 = Inr (2, s2)"
    and v2: "view s2 = [(1, ''core_sphere'', Some ''sphere_core'', MESH),
                        (2, ''core_sphere_outline'', Some ''sphere_core'', MESH)]"
    by (auto simp: v1 nm1 tg1 unique_name_free fresh_def)
  let ?s2 = "set_prop 2 ''shape_tag'' ''sphere_outline'' s2"
  have v2': "view ?s2 = [(1, ''core_sphere'', Some ''sphere_core'', MESH),
                        (2, ''core_sphere_outline'', Some ''sphere_outline'', MESH)]"
    by (simp add: view_set_prop v2)
  from view_add_hoop [of SPHERE_RADIUS HOOP_THICKNESS "''Z''" ?s2] obtain s3 where
    m3: "add_hoop SPHERE_RADIUS HOOP_THICKNESS ''Z'' ?s2 = Inr (3, s3)"
    and v3: "view s3 = [(1, ''core_sphere'', Some ''sphere_core'', MESH),
                        (2, ''core_sphere_outline'', Some ''sphere_outline'', MESH),
                        (3, ''hoop_Z'', Some ''hoop_Z'', MESH)]"
    by (auto simp: v2' unique_name_free fresh_def)
  from view_add_hoop [of SPHERE_RADIUS HOOP_THICKNESS "''X''" s3] obtain s4 where
    m4: "add_hoop SPHERE_RADIUS HOOP_THICKNESS ''X'' s3 = Inr (4, s4)"
    and v4: "view s4 = tracked_view"
    by (auto simp: v3 unique_name_free fresh_def tracked_view_def)
  show ?thesis
    unfolding build_asset_def m1 m2 m3 m4 sum.case prod.case
    by (simp add: v4)
qed

lemma view_modify_selected:
  "view (s\<lparr>objects := modify k (\<lambda>ob. ob\<lparr>selected := b\<rparr>) (objects s)\<rparr>) = view s"
  by (simp add: view_def modify_def split_beta shape_tag_def type_of_def)

lemma select_set_view:
  "select_set k b s = Inr s' \<Longrightarrow> view s' = view s"
  by (auto simp: select_set_def view_modify_selected split: option.splits)

lemma select_set_present:
  "map_of (view s) k = Some x \<Longrightarrow> \<exists>s'. select_set k b s = Inr s'"
  by (auto simp: select_set_def map_of_view split: option.splits)

lemma select_each_view:
  "select_each ks b s = Inr s' \<Longrightarrow> view s' = view s"
proof (induction ks arbitrary: s)
  case Nil
  then show ?case by simp
next
  case (Cons k ks)
  then show ?case
    by (auto split: sum.splits dest: select_set_view)
qed

lemma select_each_present:
  "list_all (\<lambda>k. map_of (view s) k \<noteq> None) ks \<Longrightarrow> \<exists>s'. select_each ks b s = Inr s'"
proof (induction ks arbitrary: s)
  case Nil
  then show ?case by simp
next
  case (Cons k ks)
  from Cons.prems obtain x where "map_of (view s) k = Some x" by auto
  then obtain s1 where s1: "select_set k b s = Inr s1"
    using select_set_present by blast
  then have "view s1 = view s" by (rule select_set_view)
  with Cons.prems have "list_all (\<lambda>k. map_of (view s1) k \<noteq> None) ks" by simp
  from Cons.IH [OF this] s1 show ?case by simp
qed

lemma view_deselect_all [simp]: "view (object_select_all a s) = view s"
  by (simp add: view_def object_select_all_def split_beta shape_tag_def type_of_def)

lemma view_export_scene_obj [simp]: "view (export_scene_obj f s) = view s"
  by (simp add: view_def export_scene_obj_def)

lemma export_mesh_view:
  "export_mesh export_path ks f s = Inr s' \<Longrightarrow> view s' = view s"
  by (auto simp: export_mesh_def split: sum.splits dest!: select_each_view)

lemma export_mesh_present:
  assumes "list_all (\<lambda>k. map_of (view s) k \<noteq> None) ks"
  shows "\<exists>s'. export_mesh export_path ks f s = Inr s'"
proof -
  from assms have "list_all (\<lambda>k. map_of (view (object_select_all DESELECT s)) k \<noteq> None) ks"
    by simp
  from select_each_present [OF this] obtain s1
    where s1: "select_each ks True (object_select_all DESELECT s) = Inr s1" by blast
  then have "view s1 = view s" by (auto dest: select_each_view)
  with assms
  have "list_all (\<lambda>k. map_of (view (export_scene_obj (path_join export_path f) s1)) k \<noteq> None) ks"
    by simp
  from select_each_present [OF this] s1 show ?thesis
    by (simp add: export_mesh_def)
qed

lemma view_add_object:
  "view (snd (add_object nm d loc eul s))
     = view s @ [(fresh (view s), unique_name (map (\<lambda>(i, n, t, ty). n) (view s)) nm, None,
                  (case d of MeshData _ \<Rightarrow> MESH | CameraData _ \<Rightarrow> CAMERA | LightData _ \<Rightarrow> LIGHT))]"
  by (simp add: add_object_closed fresh_view [symmetric] names_view [symmetric]
        view_deselected_snoc [where k = "fresh (objects s)"])
     (simp add: shape_tag_def type_of_def)

lemma view_camera_add:
  "view (snd (camera_add h loc eul s))
     = view s @ [(fresh (view s), unique_name (map (\<lambda>(i, n, t, ty). n) (view s)) (camera_defname h),
                  None, CAMERA)]"
proof -
  have "view (s\<lparr>cameras := c\<rparr>) = view s" for c
    by (simp add: view_def)
  then show ?thesis
    by (simp add: camera_add_def Let_def view_add_object)
qed

lemma view_light_add_area:
  "view (snd (light_add_area h loc s))
     = view s @ [(fresh (view s), unique_name (map (\<lambda>(i, n, t, ty). n) (view s)) (area_light_defname h),
                  None, LIGHT)]"
proof -
  have "view (s\<lparr>lights := c\<rparr>) = view s" for c
    by (simp add: view_def)
  then show ?thesis
    by (simp add: light_add_area_def Let_def view_add_object)
qed

lemma objects_by_name_view:
  "objects_by_name nm s =
     (case find (\<lambda>(i, n, t, ty). n = nm) (view s) of
        None \<Rightarrow> Inl (KeyError nm)
      | Some (i, x) \<Rightarrow> Inr i)"
proof -
  have "map_option fst (find (\<lambda>(i, n, t, ty). n = nm) (map (\<lambda>(i, ob). (i, name ob, shape_tag ob, type_of ob)) st))
      = map_option fst (find (\<lambda>(i, ob). name ob = nm) st)" for st :: "obj store"
    by (induction st) auto
  from this [of "objects s"] show ?thesis
    by (auto simp: objects_by_name_def view_def split: option.splits)
qed

lemma set_energy_view: "set_energy k e s = Inr s' \<Longrightarrow> view s' = view s"
  by (auto simp: set_energy_def view_def split: option.splits data_ref.splits)

lemma set_energy_light:
  assumes "map_of (view s) k = Some (n, t, LIGHT)"
  shows "\<exists>s'. set_energy k e s = Inr s'"
proof -
  from assms obtain ob where ob: "map_of (objects s) k = Some ob" and ty: "type_of ob = LIGHT"
    by (auto simp: map_of_view)
  from ty obtain l where "data ob = LightData l"
    by (cases "data ob") (simp_all add: type_of_def)
  with ob show ?thesis by (simp add: set_energy_def)
qed

lemma view_scene_camera [simp]: "view (s\<lparr>scene_camera := c\<rparr>) = view s"
  by (simp add: view_def)

lemma add_camera_light_view:
  assumes "add_camera_light h s = Inr ((cam, light), s')"
  shows "\<exists>ext. view s' = view s @ ext"
proof -
  let ?s1 = "if ''Camera'' \<notin> set (object_names s)
             then snd (camera_add h (0, -4, 0) (radians 90, 0, 0) s) else s"
  have e1: "\<exists>ext. view ?s1 = view s @ ext"
    by (simp add: view_camera_add)
  let ?s2 = "?s1\<lparr>scene_camera := Some cam\<rparr>"
  let ?s3 = "if ''Light'' \<notin> set (object_names ?s2)
             then snd (light_add_area h (0, -3, 3) ?s2) else ?s2"
  have e3: "\<exists>ext. view ?s3 = view ?s1 @ ext"
    by (simp add: view_light_add_area)
  from assms have "set_energy light 500 ?s3 = Inr s'"
    by (auto simp: add_camera_light_def Let_def split: sum.splits)
  then have "view s' = view ?s3" by (rule set_energy_view)
  with e1 e3 show ?thesis by (metis append.assoc)
qed

lemma view_render_view: "view (render_view export_path nm cam target angles s) = view s"
proof -
  obtain rx ry rz where a: "angles = (rx, ry, rz)" by (cases angles)
  show ?thesis
    unfolding a
    by (rule view_selection [where g = "\<lambda>i ob. type_of ob \<noteq> CAMERA"])
       (simp add: objects_render_view objects_render_selection)
qed

lemma view_render_views: "view (render_views export_path cam target views s) = view s"
proof (induction views arbitrary: s)
  case Nil
  then show ?case by (simp add: render_views_def)
next
  case (Cons v views)
  obtain nm angles where v: "v = (nm, angles)" by (cases v)
  have "render_views export_path cam target (v # views) s
      = render_views export_path cam target views (render_view export_path nm cam target angles s)"
    by (simp add: render_views_def v)
  then show ?case by (simp add: Cons.IH view_render_view)
qed

lemma view_write_labels [simp]: "view (write_labels export_path s) = view s"
  by (rule view_cong) (simp add: write_labels_def file_open_w_def file_write_def Let_def)

lemma tracked_labels:
  assumes "view s = tracked_view @ ext"
  shows "map (object_label s) [1, 2, 3, 4] =
     [[''core_sphere'', ''sphere_core''], [''core_sphere_outline'', ''sphere_outline''],
      [''hoop_Z'', ''hoop_Z''], [''hoop_X'', ''hoop_X'']]"
  by (simp add: object_label_view assms tracked_view_def map_of_append map_add_def)

lemma tracked_present:
  assumes "view s = tracked_view @ ext"
  shows "list_all (\<lambda>k. map_of (view s) k \<noteq> None) [1, 2, 3, 4]"
  by (simp add: assms tracked_view_def map_of_append map_add_def)

text \<open>
  The main part stops where \<^verbatim>\<open>add_camera_light\<close> looks the light up, from every
  starting scene and for every export path.
\<close>

lemma main_stops_at_light:
  "main blender export_path s0 = Inl (KeyError ''Light'')"
proof -
  from build_asset_view [of s0] obtain s1 where
    b: "build_asset s0 = Inr ([1, 2, 3, 4], s1)" and v1: "view s1 = tracked_view" by blast
  have "list_all (\<lambda>k. map_of (view s1) k \<noteq> None) [1, 2, 3, 4]"
    by (rule tracked_present [where ext = "[]"]) (simp add: v1)
  from export_mesh_present [OF this] obtain s2
    where e: "export_mesh export_path [1, 2, 3, 4] ''core_sphere.obj'' s1 = Inr s2" by blast
  from e have v2: "view s2 = tracked_view" using v1 by (auto dest: export_mesh_view)
  have "object_names s2 = [''core_sphere'', ''core_sphere_outline'', ''hoop_Z'', ''hoop_X'']"
    by (simp add: names_view v2 tracked_view_def)
  then have "''Light'' \<notin> set (object_names s2)" by simp
  then have c: "add_camera_light blender s2 = Inl (KeyError ''Light'')"
    by (rule add_camera_light_without_light)
  show ?thesis
    unfolding main_def b sum.case prod.case e c ..
qed

text \<open>
  C3. The main part of the script never reaches its label block. From every starting scene
  and for every export path it stops with \<^verbatim>\<open>KeyError\<close> at the lookup
  \<^verbatim>\<open>bpy.data.objects["Light"]\<close> of \<^verbatim>\<open>add_camera_light\<close> (line 98), which comes before the
  renders and before the five writes of lines 176 to 181: the run leaves no label file
  whose rows could be counted or compared with the scene. The scene that the run has
  built by then is as the claim describes it: the build stage returns four tracked
  objects, and their names and \<^verbatim>\<open>shape_tag\<close> annotations are, in order, \<^verbatim>\<open>core_sphere\<close> tagged
  \<^verbatim>\<open>sphere_core\<close>, \<^verbatim>\<open>core_sphere_outline\<close> tagged \<^verbatim>\<open>sphere_outline\<close>, and the hoops named and
  tagged \<^verbatim>\<open>hoop_Z\<close> and \<^verbatim>\<open>hoop_X\<close>.
\<close>

theorem main_stops_before_labels:
  "main blender export_path s0 = Inl (KeyError ''Light'')
   \<and> (case build_asset s0 of
        Inl e \<Rightarrow> False
      | Inr (built, s1) \<Rightarrow>
          length built = 4
          \<and> map (object_label s1) built =
              [[''core_sphere'', ''sphere_core''], [''core_sphere_outline'', ''sphere_outline''],
               [''hoop_Z'', ''hoop_Z''], [''hoop_X'', ''hoop_X'']])"
proof (rule conjI)
  show "main blender export_path s0 = Inl (KeyError ''Light'')"
    by (rule main_stops_at_light)
next
  from build_asset_view [of s0] obtain s1 where
    b: "build_asset s0 = Inr ([1, 2, 3, 4], s1)" and v1: "view s1 = tracked_view" by blast
  have l1: "map (object_label s1) [1, 2, 3, 4] =
     [[''core_sphere'', ''sphere_core''], [''core_sphere_outline'', ''sphere_outline''],
      [''hoop_Z'', ''hoop_Z''], [''hoop_X'', ''hoop_X'']]"
    by (rule tracked_labels [where ext = "[]"]) (simp add: v1)
  show "case build_asset s0 of
        Inl e \<Rightarrow> False
      | Inr (built, s1) \<Rightarrow>
          length built = 4
          \<and> map (object_label s1) built =
              [[''core_sphere'', ''sphere_core''], [''core_sphere_outline'', ''sphere_outline''],
               [''hoop_Z'', ''hoop_Z''], [''hoop_X'', ''hoop_X'']]"
    unfolding b sum.case prod.case l1 by simp
qed

end
